theory Spec2Isabelle
  imports Complex_Main "HOL-Library.Word"
begin

section \<open>Schema layer of the academic record-keeping API\<close>

text \<open>
  The two source files, \<^verbatim>\<open>models/coursework.py\<close> and \<^verbatim>\<open>models/assignment.py\<close>, contain
  no executable statements of their own: each class is a list of pydantic field declarations
  (a name, an annotated type, and either \<^verbatim>\<open>...\<close> for a required field, a static default or
  a \<^verbatim>\<open>default_factory\<close>). The embedding therefore has two layers.

  \<^item> The declarations are data: a class is the list of its fields in declaration order, and
    every class of the two files is transcribed field by field.
  \<^item> What the declarations mean is given by one interpreter, \<open>validate\<close>, which follows the
    validation library's documented behaviour for the constructs the source uses: required
    fields, static defaults, default factories, \<^verbatim>\<open>Optional\<close>, \<^verbatim>\<open>List\<close>, nested models,
    unknown keys ignored, and errors collected with their location.

  \<^verbatim>\<open>uuid4\<close> and \<^verbatim>\<open>datetime.utcnow\<close> read the environment, so validation threads an explicit
  \<open>world\<close>. The textual formats of UUIDs, dates, timestamps and e-mail addresses belong to the
  library, not to the repository; they are a parameter (\<open>codec\<close>) of everything below.
\<close>

subsection \<open>Values\<close>

text \<open>A UUID is a 128-bit number; a date is year, month, day; a datetime adds hour, minute,
  second, microsecond and an optional UTC offset in minutes (\<open>None\<close> for a naive value).\<close>

type_synonym uuid = "128 word"

datatype date = Date nat nat nat

datatype datetime = Datetime nat nat nat nat nat nat nat "int option"

text \<open>The untyped, JSON-like input. An object is an association list; a key is looked up with
  \<open>map_of\<close>.\<close>

datatype json =
    JNull
  | JBool bool
  | JNum rat
  | JStr string
  | JArr "json list"
  | JObj "(string \<times> json) list"

text \<open>A validated value. A model instance lists its attributes in field order.\<close>

datatype val =
    VNone
  | VStr string
  | VUuid uuid
  | VDate date
  | VDatetime datetime
  | VList "val list"
  | VModel "(string \<times> val) list"

subsection \<open>Field declarations\<close>

text \<open>The three factories the source passes as \<^verbatim>\<open>default_factory\<close>: \<^verbatim>\<open>uuid4\<close>,
  \<^verbatim>\<open>datetime.utcnow\<close> and \<^verbatim>\<open>list\<close>.\<close>

datatype factory = Factory_uuid4 | Factory_utcnow | Factory_list

text \<open>\<open>Required\<close> is \<^verbatim>\<open>Field(...)\<close>, \<open>Default x\<close> is \<^verbatim>\<open>Field(x)\<close>, \<open>DefaultFactory f\<close> is
  \<^verbatim>\<open>Field(default_factory=f)\<close>.\<close>

datatype fdefault = Required | Default val | DefaultFactory factory

text \<open>The annotations: \<^verbatim>\<open>str\<close>, a string of a minimal length, \<^verbatim>\<open>EmailStr\<close>, \<^verbatim>\<open>UUID\<close>,
  \<^verbatim>\<open>date\<close>, \<^verbatim>\<open>datetime\<close>, \<^verbatim>\<open>Optional[T]\<close>, \<^verbatim>\<open>List[T]\<close> and a model class, given by its
  fields.\<close>

datatype ftype =
    TStr
  | TConStr nat
  | TEmailStr
  | TUuid
  | TDate
  | TDatetime
  | TOptional ftype
  | TList ftype
  | TModel "(string \<times> ftype \<times> fdefault) list"

type_synonym fdecl = "string \<times> ftype \<times> fdefault"

abbreviation Field :: "string \<Rightarrow> ftype \<Rightarrow> fdefault \<Rightarrow> fdecl" where
  "Field n t d \<equiv> (n, t, d)"

definition field_names :: "fdecl list \<Rightarrow> string list" where
  "field_names cls = map fst cls"

text \<open>A class statement with base class \<open>base\<close> and body \<open>decls\<close>: a name the base already
  declares is replaced where it stands, a new name is appended.\<close>

fun declare_field :: "fdecl list \<Rightarrow> fdecl \<Rightarrow> fdecl list" where
  "declare_field [] f = [f]"
| "declare_field (g # gs) f = (if fst g = fst f then f # gs else g # declare_field gs f)"

definition inherit :: "fdecl list \<Rightarrow> fdecl list \<Rightarrow> fdecl list" where
  "inherit base decls = foldl declare_field base decls"

subsection \<open>The environment\<close>

text \<open>The \<open>n\<close>-th call of \<^verbatim>\<open>uuid4()\<close> returns \<open>uuid_source n\<close>, the \<open>n\<close>-th call of
  \<^verbatim>\<open>datetime.utcnow()\<close> returns \<open>utc_clock n\<close>; the counters record how many calls were made.\<close>

record world =
  uuid_source :: "nat \<Rightarrow> uuid"
  uuid_count :: nat
  utc_clock :: "nat \<Rightarrow> datetime"
  clock_count :: nat

definition uuid4 :: "world \<Rightarrow> uuid \<times> world" where
  "uuid4 w = (uuid_source w (uuid_count w), w\<lparr>uuid_count := Suc (uuid_count w)\<rparr>)"

definition utcnow :: "world \<Rightarrow> datetime \<times> world" where
  "utcnow w = (utc_clock w (clock_count w), w\<lparr>clock_count := Suc (clock_count w)\<rparr>)"

text \<open>\<open>later w w'\<close>: the world \<open>w'\<close> is \<open>w\<close> after some calls of \<^verbatim>\<open>uuid4\<close> and
  \<^verbatim>\<open>datetime.utcnow\<close>.\<close>

definition later :: "world \<Rightarrow> world \<Rightarrow> bool" where
  "later w w' =
     (uuid_source w' = uuid_source w \<and> utc_clock w' = utc_clock w \<and>
      uuid_count w \<le> uuid_count w' \<and> clock_count w \<le> clock_count w')"

fun call_factory :: "factory \<Rightarrow> world \<Rightarrow> val \<times> world" where
  "call_factory Factory_uuid4 w = (case uuid4 w of (u, w') \<Rightarrow> (VUuid u, w'))"
| "call_factory Factory_utcnow w = (case utcnow w of (t, w') \<Rightarrow> (VDatetime t, w'))"
| "call_factory Factory_list w = (VList [], w)"

subsection \<open>The scalar formats\<close>

text \<open>How the library reads a UUID, a date, a timestamp and an e-mail address from a string
  (dates and timestamps also from a number), and how it writes the first three. The e-mail
  reader returns the normalised address.\<close>

record codec =
  uuid_of_str :: "string \<Rightarrow> uuid option"
  date_of_str :: "string \<Rightarrow> date option"
  date_of_num :: "rat \<Rightarrow> date option"
  datetime_of_str :: "string \<Rightarrow> datetime option"
  datetime_of_num :: "rat \<Rightarrow> datetime option"
  email_of_str :: "string \<Rightarrow> string option"
  str_of_uuid :: "uuid \<Rightarrow> string"
  str_of_date :: "date \<Rightarrow> string"
  str_of_datetime :: "datetime \<Rightarrow> string"

subsection \<open>Validation errors\<close>

text \<open>An error is a location (field names and list indices, outermost first) and a kind.\<close>

datatype loc = Key string | Idx nat

datatype error_type =
    Missing
  | ModelType
  | ListType
  | StringType
  | StringTooShort
  | ValueError
  | UuidType
  | UuidParsing
  | DateType
  | DateParsing
  | DatetimeType
  | DatetimeParsing

type_synonym verror = "loc list \<times> error_type"

definition at_loc :: "loc \<Rightarrow> verror \<Rightarrow> verror" where
  "at_loc l e = (l # fst e, snd e)"

definition errors_of :: "verror list + val \<Rightarrow> verror list" where
  "errors_of r = (case r of Inl es \<Rightarrow> es | Inr x \<Rightarrow> [])"

subsection \<open>Validate-and-construct\<close>

text \<open>
  \<open>validate c t v w\<close> validates the input \<open>v\<close> against the annotation \<open>t\<close> in the world \<open>w\<close>
  and returns the errors or the value, and the world after the factories it called.

  \<open>validate_fields\<close> walks the fields of a class in declaration order. A key that is present
  is validated against the field's type, its errors placed under the field's name. A key that
  is absent is an error for a required field, and otherwise yields the default, which is not
  validated; a factory is called at that moment. All fields are visited, so all errors are
  collected, and keys that name no field are never looked at. \<open>validate_items\<close> does the same
  for the items of a list, placing errors under the item's index.
\<close>

function (sequential)
  validate :: "codec \<Rightarrow> ftype \<Rightarrow> json \<Rightarrow> world \<Rightarrow> (verror list + val) \<times> world"
  and validate_fields :: "codec \<Rightarrow> fdecl list \<Rightarrow> (string \<times> json) list \<Rightarrow> world
        \<Rightarrow> (verror list \<times> (string \<times> val) list) \<times> world"
  and validate_items :: "codec \<Rightarrow> ftype \<Rightarrow> json list \<Rightarrow> nat \<Rightarrow> world
        \<Rightarrow> (verror list \<times> val list) \<times> world"
where
  "validate c TStr v w =
     (case v of JStr s \<Rightarrow> (Inr (VStr s), w) | _ \<Rightarrow> (Inl [([], StringType)], w))"
| "validate c (TConStr m) v w =
     (case v of
        JStr s \<Rightarrow> (if m \<le> length s then (Inr (VStr s), w) else (Inl [([], StringTooShort)], w))
      | _ \<Rightarrow> (Inl [([], StringType)], w))"
| "validate c TEmailStr v w =
     (case v of
        JStr s \<Rightarrow> (case email_of_str c s of
                     Some e \<Rightarrow> (Inr (VStr e), w)
                   | None \<Rightarrow> (Inl [([], ValueError)], w))
      | _ \<Rightarrow> (Inl [([], StringType)], w))"
| "validate c TUuid v w =
     (case v of
        JStr s \<Rightarrow> (case uuid_of_str c s of
                     Some u \<Rightarrow> (Inr (VUuid u), w)
                   | None \<Rightarrow> (Inl [([], UuidParsing)], w))
      | _ \<Rightarrow> (Inl [([], UuidType)], w))"
| "validate c TDate v w =
     (case v of
        JStr s \<Rightarrow> (case date_of_str c s of
                     Some d \<Rightarrow> (Inr (VDate d), w)
                   | None \<Rightarrow> (Inl [([], DateParsing)], w))
      | JNum x \<Rightarrow> (case date_of_num c x of
                     Some d \<Rightarrow> (Inr (VDate d), w)
                   | None \<Rightarrow> (Inl [([], DateParsing)], w))
      | _ \<Rightarrow> (Inl [([], DateType)], w))"
| "validate c TDatetime v w =
     (case v of
        JStr s \<Rightarrow> (case datetime_of_str c s of
                     Some t \<Rightarrow> (Inr (VDatetime t), w)
                   | None \<Rightarrow> (Inl [([], DatetimeParsing)], w))
      | JNum x \<Rightarrow> (case datetime_of_num c x of
                     Some t \<Rightarrow> (Inr (VDatetime t), w)
                   | None \<Rightarrow> (Inl [([], DatetimeParsing)], w))
      | _ \<Rightarrow> (Inl [([], DatetimeType)], w))"
| "validate c (TOptional t) v w =
     (case v of JNull \<Rightarrow> (Inr VNone, w) | _ \<Rightarrow> validate c t v w)"
| "validate c (TList t) v w =
     (case v of
        JArr xs \<Rightarrow> (case validate_items c t xs 0 w of
                      ((errs, vs), w') \<Rightarrow> (if errs = [] then Inr (VList vs) else Inl errs, w'))
      | _ \<Rightarrow> (Inl [([], ListType)], w))"
| "validate c (TModel fs) v w =
     (case v of
        JObj kvs \<Rightarrow> (case validate_fields c fs kvs w of
                       ((errs, r), w') \<Rightarrow> (if errs = [] then Inr (VModel r) else Inl errs, w'))
      | _ \<Rightarrow> (Inl [([], ModelType)], w))"
| "validate_fields c [] kvs w = (([], []), w)"
| "validate_fields c ((n, t, d) # fs) kvs w =
     (case map_of kvs n of
        None \<Rightarrow>
          (case d of
             Required \<Rightarrow>
               (case validate_fields c fs kvs w of
                  ((errs, r), w') \<Rightarrow> ((([Key n], Missing) # errs, r), w'))
           | Default x \<Rightarrow>
               (case validate_fields c fs kvs w of
                  ((errs, r), w') \<Rightarrow> ((errs, (n, x) # r), w'))
           | DefaultFactory f \<Rightarrow>
               (case call_factory f w of
                  (x, w1) \<Rightarrow>
                    (case validate_fields c fs kvs w1 of
                       ((errs, r), w') \<Rightarrow> ((errs, (n, x) # r), w'))))
      | Some v \<Rightarrow>
          (case validate c t v w of
             (Inl es, w1) \<Rightarrow>
               (case validate_fields c fs kvs w1 of
                  ((errs, r), w') \<Rightarrow> ((map (at_loc (Key n)) es @ errs, r), w'))
           | (Inr x, w1) \<Rightarrow>
               (case validate_fields c fs kvs w1 of
                  ((errs, r), w') \<Rightarrow> ((errs, (n, x) # r), w'))))"
| "validate_items c t [] i w = (([], []), w)"
| "validate_items c t (x # xs) i w =
     (case validate c t x w of
        (Inl es, w1) \<Rightarrow>
          (case validate_items c t xs (Suc i) w1 of
             ((errs, vs), w') \<Rightarrow> ((map (at_loc (Idx i)) es @ errs, vs), w'))
      | (Inr y, w1) \<Rightarrow>
          (case validate_items c t xs (Suc i) w1 of
             ((errs, vs), w') \<Rightarrow> ((errs, y # vs), w')))"
  by pat_completeness auto
termination
  by lexicographic_order

text \<open>Constructing an instance of the class \<open>cls\<close> from the input \<open>obj\<close>. The instance is
  given by its attributes, which is what the comparison of two instances looks at; the set
  of supplied fields that it also records is \<open>model_fields_set\<close> below.\<close>

definition model_validate :: "codec \<Rightarrow> fdecl list \<Rightarrow> json \<Rightarrow> world \<Rightarrow> (verror list + val) \<times> world" where
  "model_validate c cls obj w = validate c (TModel cls) obj w"


text \<open>Attribute access on a validated value.\<close>

fun field_of :: "val \<Rightarrow> string \<Rightarrow> val option" where
  "field_of (VModel r) n = map_of r n"
| "field_of v n = None"

text \<open>Serialization to the JSON-like wire form.\<close>

fun dump :: "codec \<Rightarrow> val \<Rightarrow> json" where
  "dump c VNone = JNull"
| "dump c (VStr s) = JStr s"
| "dump c (VUuid u) = JStr (str_of_uuid c u)"
| "dump c (VDate d) = JStr (str_of_date c d)"
| "dump c (VDatetime t) = JStr (str_of_datetime c t)"
| "dump c (VList vs) = JArr (map (dump c) vs)"
| "dump c (VModel r) = JObj (map (\<lambda>(k, v). (k, dump c v)) r)"

subsection \<open>\<^verbatim>\<open>models/coursework.py\<close>\<close>

text \<open>\<^verbatim>\<open>PersonBase\<close> is imported from \<^verbatim>\<open>models/person.py\<close>, which is not among the sources;
  the classes take its field list as a parameter.\<close>

definition CourseworkBase :: "fdecl list \<Rightarrow> fdecl list" where
  "CourseworkBase PersonBase = [
     Field ''id'' TUuid (DefaultFactory Factory_uuid4),
     Field ''title'' TStr Required,
     Field ''semester'' TStr Required,
     Field ''professor'' (TModel PersonBase) Required,
     Field ''people'' (TList (TModel PersonBase)) (DefaultFactory Factory_list)]"

definition CourseworkCreate :: "fdecl list \<Rightarrow> fdecl list" where
  "CourseworkCreate PersonBase = inherit (CourseworkBase PersonBase) []"

definition CourseworkUpdate :: "fdecl list \<Rightarrow> fdecl list" where
  "CourseworkUpdate PersonBase = [
     Field ''title'' (TOptional TStr) (Default VNone),
     Field ''semester'' (TOptional TStr) (Default VNone),
     Field ''professor'' (TOptional (TModel PersonBase)) (Default VNone),
     Field ''people'' (TOptional (TList (TModel PersonBase))) (Default VNone),
     Field ''created_at'' TDatetime (DefaultFactory Factory_utcnow)]"

definition CourseworkRead :: "fdecl list \<Rightarrow> fdecl list" where
  "CourseworkRead PersonBase = inherit (CourseworkBase PersonBase) [
     Field ''id'' TUuid (DefaultFactory Factory_uuid4),
     Field ''updated_at'' TDatetime (DefaultFactory Factory_utcnow)]"

subsection \<open>\<^verbatim>\<open>models/assignment.py\<close>\<close>

definition AssignmentBase :: "fdecl list \<Rightarrow> fdecl list" where
  "AssignmentBase PersonBase = [
     Field ''id'' TUuid (DefaultFactory Factory_uuid4),
     Field ''title'' TStr Required,
     Field ''description'' TStr Required,
     Field ''due_date'' TDate Required,
     Field ''coursework'' (TModel (CourseworkBase PersonBase)) Required,
     Field ''created_at'' TDatetime (DefaultFactory Factory_utcnow)]"

definition AssignmentCreate :: "fdecl list \<Rightarrow> fdecl list" where
  "AssignmentCreate PersonBase = inherit (AssignmentBase PersonBase) []"

definition AssignmentUpdate :: "fdecl list \<Rightarrow> fdecl list" where
  "AssignmentUpdate PersonBase = [
     Field ''id'' (TOptional TUuid) (DefaultFactory Factory_uuid4),
     Field ''title'' (TOptional TStr) (Default VNone),
     Field ''description'' (TOptional TStr) (Default VNone),
     Field ''due_date'' (TOptional TDate) (Default VNone),
     Field ''coursework'' (TOptional (TModel (CourseworkBase PersonBase))) (Default VNone),
     Field ''created_at'' (TOptional TDatetime) (Default VNone)]"

definition AssignmentRead :: "fdecl list \<Rightarrow> fdecl list" where
  "AssignmentRead PersonBase = inherit (AssignmentBase PersonBase) [
     Field ''id'' TUuid (DefaultFactory Factory_uuid4),
     Field ''created_at'' TDatetime (DefaultFactory Factory_utcnow),
     Field ''updated_at'' TDatetime (DefaultFactory Factory_utcnow)]"

subsection \<open>Person and Address\<close>

text \<open>Modelled from the spec: the Address fields of \<^verbatim>\<open>models/address.py\<close>, which is not among
  the sources. The spec gives \<open>id\<close> a server-assigned default and requires none of the other
  fields, \<open>state\<close> being nullable; each of them is declared with the default \<open>None\<close>.\<close>

definition Address_spec :: "fdecl list" where
  "Address_spec = [
     Field ''id'' TUuid (DefaultFactory Factory_uuid4),
     Field ''street'' (TOptional TStr) (Default VNone),
     Field ''city'' (TOptional TStr) (Default VNone),
     Field ''state'' (TOptional TStr) (Default VNone),
     Field ''postal_code'' (TOptional TStr) (Default VNone),
     Field ''country'' (TOptional TStr) (Default VNone)]"

text \<open>Modelled from the spec: \<^verbatim>\<open>PersonBase\<close> of \<^verbatim>\<open>models/person.py\<close>, which is not among
  the sources: \<open>uni\<close> a required non-empty string, \<open>first_name\<close>, \<open>last_name\<close>, \<open>email\<close> a
  required well-formed e-mail address, \<open>addresses\<close> defaulting to the empty list. It
  instantiates the parameter of the classes above in the concrete examples.\<close>

definition PersonBase_spec :: "fdecl list" where
  "PersonBase_spec = [
     Field ''uni'' (TConStr 1) Required,
     Field ''first_name'' TStr Required,
     Field ''last_name'' TStr Required,
     Field ''email'' TEmailStr Required,
     Field ''addresses'' (TList (TModel Address_spec)) (DefaultFactory Factory_list)]"

subsection \<open>Well-formed declarations and stable values\<close>

text \<open>A default is well-typed when it is \<open>None\<close> on an \<^verbatim>\<open>Optional\<close> field, or a factory whose
  result has the field's type (possibly under \<^verbatim>\<open>Optional\<close>). A class is well-formed when its
  field names are distinct and every default, also of the classes nested in it, is well-typed.\<close>

fun factory_ok :: "factory \<Rightarrow> ftype \<Rightarrow> bool" where
  "factory_ok Factory_uuid4 t = (t = TUuid \<or> t = TOptional TUuid)"
| "factory_ok Factory_utcnow t = (t = TDatetime \<or> t = TOptional TDatetime)"
| "factory_ok Factory_list t =
     (case t of TList t' \<Rightarrow> True | TOptional (TList t') \<Rightarrow> True | _ \<Rightarrow> False)"

fun default_ok :: "ftype \<Rightarrow> fdefault \<Rightarrow> bool" where
  "default_ok t Required = True"
| "default_ok t (Default x) = (case t of TOptional t' \<Rightarrow> x = VNone | _ \<Rightarrow> False)"
| "default_ok t (DefaultFactory f) = factory_ok f t"

fun wf_type :: "ftype \<Rightarrow> bool"
  and wf_fields :: "fdecl list \<Rightarrow> bool"
where
  "wf_type (TOptional t) = wf_type t"
| "wf_type (TList t) = wf_type t"
| "wf_type (TModel fs) = (distinct (map fst fs) \<and> wf_fields fs)"
| "wf_type t = True"
| "wf_fields [] = True"
| "wf_fields ((n, t, d) # fs) = (default_ok t d \<and> wf_type t \<and> wf_fields fs)"

text \<open>The UUIDs, dates and timestamps inside a value are read back from their written form.\<close>

fun scalars_roundtrip :: "codec \<Rightarrow> val \<Rightarrow> bool" where
  "scalars_roundtrip c VNone = True"
| "scalars_roundtrip c (VStr s) = True"
| "scalars_roundtrip c (VUuid u) = (uuid_of_str c (str_of_uuid c u) = Some u)"
| "scalars_roundtrip c (VDate d) = (date_of_str c (str_of_date c d) = Some d)"
| "scalars_roundtrip c (VDatetime t) = (datetime_of_str c (str_of_datetime c t) = Some t)"
| "scalars_roundtrip c (VList vs) = list_all (scalars_roundtrip c) vs"
| "scalars_roundtrip c (VModel r) = list_all (\<lambda>kv. scalars_roundtrip c (snd kv)) r"

text \<open>Two values are alike when they are equal up to the UUIDs and timestamps in them: the
  same shape, the same field names, the same strings, dates and \<open>None\<close>s.\<close>

fun alike :: "val \<Rightarrow> val \<Rightarrow> bool" where
  "alike (VUuid u) (VUuid u') = True"
| "alike (VDatetime t) (VDatetime t') = True"
| "alike (VList xs) (VList ys) = list_all2 alike xs ys"
| "alike (VModel r) (VModel r') =
     list_all2 (\<lambda>kv kv'. fst kv = fst kv' \<and> alike (snd kv) (snd kv')) r r'"
| "alike x y = (x = y)"

text \<open>A normalised e-mail address is accepted as it is.\<close>

definition email_idempotent :: "codec \<Rightarrow> bool" where
  "email_idempotent c = (\<forall>s e. email_of_str c s = Some e \<longrightarrow> email_of_str c e = Some e)"

text \<open>An input that \<^verbatim>\<open>EmailStr\<close> rejects: not a string, or a string the e-mail reader
  refuses.\<close>

definition malformed_email :: "codec \<Rightarrow> json \<Rightarrow> bool" where
  "malformed_email c v = (case v of JStr s \<Rightarrow> email_of_str c s = None | _ \<Rightarrow> True)"

subsection \<open>Concrete inputs\<close>

text \<open>A codec that knows the literals of the source's examples, an environment whose first
  two UUIDs are those of the source's examples and whose clock alternates between two
  readings, and the example input of the spec.\<close>

definition example_codec :: codec where
  "example_codec = \<lparr>
     uuid_of_str = (\<lambda>s.
       if s = ''550e8400-e29b-41d4-a716-446655440000'' then Some 0x550e8400e29b41d4a716446655440000
       else if s = ''99999999-9999-4999-8999-999999999999'' then Some 0x99999999999949998999999999999999
       else None),
     date_of_str = (\<lambda>s. if s = ''2025-12-31'' then Some (Date 2025 12 31) else None),
     date_of_num = (\<lambda>x. None),
     datetime_of_str = (\<lambda>s.
       if s = ''2025-01-15T10:20:30'' then Some (Datetime 2025 1 15 10 20 30 0 None)
       else if s = ''2025-01-16T12:00:00'' then Some (Datetime 2025 1 16 12 0 0 0 None)
       else None),
     datetime_of_num = (\<lambda>x. None),
     email_of_str = (\<lambda>s. if s = ''d@f.edu'' then Some s else None),
     str_of_uuid = (\<lambda>u.
       if u = 0x550e8400e29b41d4a716446655440000 then ''550e8400-e29b-41d4-a716-446655440000''
       else if u = 0x99999999999949998999999999999999 then ''99999999-9999-4999-8999-999999999999''
       else []),
     str_of_date = (\<lambda>d. if d = Date 2025 12 31 then ''2025-12-31'' else []),
     str_of_datetime = (\<lambda>t.
       if t = Datetime 2025 1 15 10 20 30 0 None then ''2025-01-15T10:20:30''
       else if t = Datetime 2025 1 16 12 0 0 0 None then ''2025-01-16T12:00:00''
       else [])\<rparr>"

definition example_world :: world where
  "example_world = \<lparr>
     uuid_source = (\<lambda>n. if n = 0 then 0x550e8400e29b41d4a716446655440000
                         else if n = 1 then 0x99999999999949998999999999999999
                         else word_of_nat n),
     uuid_count = 0,
     utc_clock = (\<lambda>n. if even n then Datetime 2025 1 15 10 20 30 0 None
                       else Datetime 2025 1 16 12 0 0 0 None),
     clock_count = 0\<rparr>"

definition example_professor :: "(string \<times> json) list" where
  "example_professor = [
     (''uni'', JStr ''df123''),
     (''first_name'', JStr ''Donald''),
     (''last_name'', JStr ''Ferguson''),
     (''email'', JStr ''d@f.edu'')]"

definition example_coursework :: "(string \<times> json) list" where
  "example_coursework = [
     (''title'', JStr ''CC''),
     (''semester'', JStr ''Fall 2025''),
     (''professor'', JObj example_professor)]"

definition example_assignment :: "(string \<times> json) list" where
  "example_assignment = [
     (''title'', JStr ''HW1''),
     (''description'', JStr ''...''),
     (''due_date'', JStr ''2025-12-31''),
     (''coursework'', JObj example_coursework)]"

section \<open>Properties\<close>

subsection \<open>The classes, unfolded\<close>

lemma CourseworkCreate_eq: "CourseworkCreate P = CourseworkBase P"
  by (simp add: CourseworkCreate_def inherit_def)

lemma AssignmentCreate_eq: "AssignmentCreate P = AssignmentBase P"
  by (simp add: AssignmentCreate_def inherit_def)

lemma CourseworkRead_eq:
  "CourseworkRead P = [
     Field ''id'' TUuid (DefaultFactory Factory_uuid4),
     Field ''title'' TStr Required,
     Field ''semester'' TStr Required,
     Field ''professor'' (TModel P) Required,
     Field ''people'' (TList (TModel P)) (DefaultFactory Factory_list),
     Field ''updated_at'' TDatetime (DefaultFactory Factory_utcnow)]"
  by (simp add: CourseworkRead_def CourseworkBase_def inherit_def)

lemma AssignmentRead_eq:
  "AssignmentRead P = [
     Field ''id'' TUuid (DefaultFactory Factory_uuid4),
     Field ''title'' TStr Required,
     Field ''description'' TStr Required,
     Field ''due_date'' TDate Required,
     Field ''coursework'' (TModel (CourseworkBase P)) Required,
     Field ''created_at'' TDatetime (DefaultFactory Factory_utcnow),
     Field ''updated_at'' TDatetime (DefaultFactory Factory_utcnow)]"
  by (simp add: AssignmentRead_def AssignmentBase_def inherit_def)

subsection \<open>The errors of a validation\<close>

text \<open>The errors of a class are those of its fields, of a list those of its items; which
  errors a validation reports does not depend on the world it runs in.\<close>

lemma errors_of_simps [simp]: "errors_of (Inl es) = es" "errors_of (Inr x) = []"
  by (simp_all add: errors_of_def)

lemma validate_TModel_errors:
  "errors_of (fst (validate c (TModel fs) v w)) =
     (case v of JObj kvs \<Rightarrow> fst (fst (validate_fields c fs kvs w)) | _ \<Rightarrow> [([], ModelType)])"
  by (simp split: json.splits prod.splits)

lemma validate_TList_errors:
  "errors_of (fst (validate c (TList t) v w)) =
     (case v of JArr xs \<Rightarrow> fst (fst (validate_items c t xs 0 w)) | _ \<Rightarrow> [([], ListType)])"
  by (simp split: json.splits prod.splits)

lemma validate_fields_Cons_errors:
  "fst (fst (validate_fields c ((n, t, d) # fs) kvs w)) =
     (case map_of kvs n of
        None \<Rightarrow>
          (case d of
             Required \<Rightarrow> ([Key n], Missing) # fst (fst (validate_fields c fs kvs w))
           | Default x \<Rightarrow> fst (fst (validate_fields c fs kvs w))
           | DefaultFactory f \<Rightarrow> fst (fst (validate_fields c fs kvs (snd (call_factory f w)))))
      | Some v \<Rightarrow>
          map (at_loc (Key n)) (errors_of (fst (validate c t v w)))
            @ fst (fst (validate_fields c fs kvs (snd (validate c t v w)))))"
  by (cases "map_of kvs n"; cases d; simp split: prod.splits sum.splits)

lemma validate_items_Cons_errors:
  "fst (fst (validate_items c t (x # xs) i w)) =
     map (at_loc (Idx i)) (errors_of (fst (validate c t x w)))
       @ fst (fst (validate_items c t xs (Suc i) (snd (validate c t x w))))"
  by (simp split: prod.splits sum.splits)

lemma validate_errors_world:
  "errors_of (fst (validate c t v w)) = errors_of (fst (validate c t v w'))"
  "fst (fst (validate_fields c fs kvs w)) = fst (fst (validate_fields c fs kvs w'))"
  "fst (fst (validate_items c t xs i w)) = fst (fst (validate_items c t xs i w'))"
proof (induction c t v w and c fs kvs w and c t xs i w arbitrary: w' and w' and w'
    rule: validate_validate_fields_validate_items.induct)
  case (7 c t v w)
  have "v \<noteq> JNull \<Longrightarrow>
      errors_of (fst (validate c t v w)) = errors_of (fst (validate c t v w'))"
    by (cases v) ((simp; fail) | (rule "7.IH", assumption))+
  then show ?case
    by (cases v) simp_all
next
  case (8 c t v w)
  show ?case
  proof (cases v)
    case (JArr xs)
    from "8.IH"[OF JArr, of w'] show ?thesis
      unfolding validate_TList_errors by (simp add: JArr)
  qed (simp_all)
next
  case (9 c fs v w)
  show ?case
  proof (cases v)
    case (JObj kvs)
    from "9.IH"[OF JObj, of w'] show ?thesis
      unfolding validate_TModel_errors by (simp add: JObj)
  qed (simp_all)
next
  case (11 c n t d fs kvs w)
  show ?case
  proof (cases "map_of kvs n")
    case None
    show ?thesis
    proof (cases d)
      case Required
      from "11.IH"(1)[OF None Required, of w'] show ?thesis
        unfolding validate_fields_Cons_errors by (simp add: None Required)
    next
      case (Default x)
      from "11.IH"(2)[OF None Default, of w'] show ?thesis
        unfolding validate_fields_Cons_errors by (simp add: None Default)
    next
      case (DefaultFactory f)
      from "11.IH"(3)[OF None DefaultFactory, of "fst (call_factory f w)" "snd (call_factory f w)"
          "snd (call_factory f w')"]
      show ?thesis
        unfolding validate_fields_Cons_errors by (simp add: None DefaultFactory)
    qed
  next
    case (Some v)
    have a: "errors_of (fst (validate c t v w)) = errors_of (fst (validate c t v w'))"
      by (rule "11.IH"(4)[OF Some])
    have b: "fst (fst (validate_fields c fs kvs (snd (validate c t v w))))
        = fst (fst (validate_fields c fs kvs (snd (validate c t v w'))))"
    proof (cases "fst (validate c t v w)")
      case (Inl es)
      from Inl have eq: "(Inl es, snd (validate c t v w)) = validate c t v w"
        by (simp add: prod_eq_iff)
      show ?thesis by (rule "11.IH"(5)[OF Some eq refl])
    next
      case (Inr y)
      from Inr have eq: "(Inr y, snd (validate c t v w)) = validate c t v w"
        by (simp add: prod_eq_iff)
      show ?thesis by (rule "11.IH"(6)[OF Some eq refl])
    qed
    show ?thesis
      unfolding validate_fields_Cons_errors by (simp add: Some a b)
  qed
next
  case (13 c t x xs i w)
  have a: "errors_of (fst (validate c t x w)) = errors_of (fst (validate c t x w'))"
    by (rule "13.IH"(1))
  have b: "fst (fst (validate_items c t xs (Suc i) (snd (validate c t x w))))
      = fst (fst (validate_items c t xs (Suc i) (snd (validate c t x w'))))"
  proof (cases "fst (validate c t x w)")
    case (Inl es)
    from Inl have eq: "(Inl es, snd (validate c t x w)) = validate c t x w"
      by (simp add: prod_eq_iff)
    show ?thesis by (rule "13.IH"(2)[OF eq refl])
  next
    case (Inr y)
    from Inr have eq: "(Inr y, snd (validate c t x w)) = validate c t x w"
      by (simp add: prod_eq_iff)
    show ?thesis by (rule "13.IH"(3)[OF eq refl])
  qed
  show ?case
    unfolding validate_items_Cons_errors by (simp add: a b)
qed (simp_all split: json.splits option.splits)

lemma validate_Inl_nonempty: "fst (validate c t v w) = Inl es \<Longrightarrow> es \<noteq> []"
proof (induction t arbitrary: v)
  case (TOptional t)
  then show ?case by (cases v) auto
qed (auto split: json.splits option.splits prod.splits if_splits)

lemma validate_success_iff:
  "(\<exists>x. fst (validate c t v w) = Inr x) \<longleftrightarrow> errors_of (fst (validate c t v w)) = []"
proof (cases "fst (validate c t v w)")
  case (Inl es)
  then show ?thesis using validate_Inl_nonempty[OF Inl] by simp
next
  case (Inr x)
  then show ?thesis by simp
qed

lemma model_validate_JObj:
  "model_validate c cls (JObj kvs) w =
     (if fst (fst (validate_fields c cls kvs w)) = []
      then Inr (VModel (snd (fst (validate_fields c cls kvs w))))
      else Inl (fst (fst (validate_fields c cls kvs w))),
      snd (validate_fields c cls kvs w))"
  by (simp add: model_validate_def split: prod.splits)

lemma model_validate_fails:
  "e \<in> set (fst (fst (validate_fields c cls kvs w))) \<Longrightarrow>
   \<exists>es. fst (model_validate c cls (JObj kvs) w) = Inl es \<and> e \<in> set es"
  by (auto simp: model_validate_JObj)

lemma required_missing_error:
  "(n, t, Required) \<in> set fs \<Longrightarrow> map_of kvs n = None \<Longrightarrow>
   ([Key n], Missing) \<in> set (fst (fst (validate_fields c fs kvs w)))"
proof (induction fs arbitrary: w)
  case Nil
  then show ?case by simp
next
  case (Cons f fs)
  obtain n' t' d' where f: "f = (n', t', d')" by (cases f) auto
  show ?case
  proof (cases "f = (n, t, Required)")
    case True
    show ?thesis
      using Cons.prems(2) unfolding True validate_fields_Cons_errors by simp
  next
    case False
    with Cons.prems have "(n, t, Required) \<in> set fs" by simp
    from Cons.IH[OF this Cons.prems(2)] show ?thesis
      unfolding f validate_fields_Cons_errors
      by (simp split: option.splits fdefault.splits)
  qed
qed

lemma field_error_propagates:
  "map_of fs n = Some (t, d) \<Longrightarrow> map_of kvs n = Some v \<Longrightarrow>
   (p, e) \<in> set (errors_of (fst (validate c t v w0))) \<Longrightarrow>
   (Key n # p, e) \<in> set (fst (fst (validate_fields c fs kvs w)))"
proof (induction fs arbitrary: w)
  case Nil
  then show ?case by simp
next
  case (Cons f fs)
  obtain n' t' d' where f: "f = (n', t', d')" by (cases f) auto
  show ?case
  proof (cases "n' = n")
    case True
    with Cons.prems(1) f have td: "t' = t" "d' = d" by simp_all
    have "(p, e) \<in> set (errors_of (fst (validate c t v w)))"
      using Cons.prems(3) validate_errors_world(1)[of c t v w0 w] by simp
    then have "(Key n # p, e) \<in> at_loc (Key n) ` set (errors_of (fst (validate c t v w)))"
      by (force simp: at_loc_def)
    then show ?thesis
      unfolding f validate_fields_Cons_errors by (simp add: True td Cons.prems(2))
  next
    case False
    with Cons.prems(1) f have "map_of fs n = Some (t, d)" by simp
    from Cons.IH[OF this Cons.prems(2,3)] show ?thesis
      unfolding f validate_fields_Cons_errors
      by (simp split: option.splits fdefault.splits)
  qed
qed

lemma validate_TOptional_JObj:
  "validate c (TOptional t) (JObj kvs) w = validate c t (JObj kvs) w"
  by simp

lemma malformed_email_error:
  "malformed_email c v \<Longrightarrow> \<exists>e. ([], e) \<in> set (errors_of (fst (validate c TEmailStr v w)))"
  by (cases v) (auto simp: malformed_email_def)

subsection \<open>The values of a validation\<close>

text \<open>The attributes of a constructed object, field by field; a validation looks at its input
  only through the keys that name a field.\<close>

lemma validate_fields_Cons_result:
  "snd (fst (validate_fields c ((n, t, d) # fs) kvs w)) =
     (case map_of kvs n of
        None \<Rightarrow>
          (case d of
             Required \<Rightarrow> snd (fst (validate_fields c fs kvs w))
           | Default x \<Rightarrow> (n, x) # snd (fst (validate_fields c fs kvs w))
           | DefaultFactory f \<Rightarrow>
               (n, fst (call_factory f w))
                 # snd (fst (validate_fields c fs kvs (snd (call_factory f w)))))
      | Some v \<Rightarrow>
          (case fst (validate c t v w) of
             Inl es \<Rightarrow> snd (fst (validate_fields c fs kvs (snd (validate c t v w))))
           | Inr x \<Rightarrow> (n, x) # snd (fst (validate_fields c fs kvs (snd (validate c t v w))))))"
  by (cases "map_of kvs n"; cases d; simp split: prod.splits sum.splits)

lemma validate_fields_Cons_world:
  "snd (validate_fields c ((n, t, d) # fs) kvs w) =
     (case map_of kvs n of
        None \<Rightarrow>
          (case d of
             DefaultFactory f \<Rightarrow> snd (validate_fields c fs kvs (snd (call_factory f w)))
           | _ \<Rightarrow> snd (validate_fields c fs kvs w))
      | Some v \<Rightarrow> snd (validate_fields c fs kvs (snd (validate c t v w))))"
  by (cases "map_of kvs n"; cases d; simp split: prod.splits sum.splits)

lemma map_of_filter_key:
  "map_of (filter (\<lambda>kv. fst kv \<noteq> f) kvs) n = (if n = f then None else map_of kvs n)"
  by (induction kvs) auto

lemma validate_fields_lookup_cong:
  "(\<And>n. n \<in> fst ` set fs \<Longrightarrow> map_of kvs n = map_of kvs' n) \<Longrightarrow>
   validate_fields c fs kvs w = validate_fields c fs kvs' w"
proof (induction fs arbitrary: w)
  case Nil
  then show ?case by simp
next
  case (Cons f fs)
  obtain n t d where f: "f = (n, t, d)" by (cases f) auto
  have eq: "map_of kvs n = map_of kvs' n"
    using Cons.prems[of n] by (simp add: f)
  have ih: "\<And>w. validate_fields c fs kvs w = validate_fields c fs kvs' w"
    by (rule Cons.IH) (use Cons.prems in auto)
  show ?case
    unfolding f
    by (simp add: eq ih
        cong: option.case_cong fdefault.case_cong prod.case_cong sum.case_cong)
qed


lemma field_result:
  assumes "map_of fs n = Some (t, d)"
    and "fst (fst (validate_fields c fs kvs w)) = []"
  shows "(case map_of kvs n of
            Some v \<Rightarrow> \<exists>w1 x. fst (validate c t v w1) = Inr x
                        \<and> map_of (snd (fst (validate_fields c fs kvs w))) n = Some x
          | None \<Rightarrow> (case d of
                       Required \<Rightarrow> False
                     | Default x \<Rightarrow> map_of (snd (fst (validate_fields c fs kvs w))) n = Some x
                     | DefaultFactory f \<Rightarrow>
                         \<exists>w1. map_of (snd (fst (validate_fields c fs kvs w))) n
                                = Some (fst (call_factory f w1))))"
  using assms
proof (induction fs arbitrary: w)
  case Nil
  then show ?case by simp
next
  case (Cons g fs)
  obtain n' t' d' where g: "g = (n', t', d')" by (cases g) auto
  note errs = Cons.prems(2)[unfolded g validate_fields_Cons_errors]
  show ?case
  proof (cases "n' = n")
    case True
    with Cons.prems(1) g have td: "t' = t" "d' = d" by simp_all
    show ?thesis
    proof (cases "map_of kvs n")
      case None
      then show ?thesis
        using errs unfolding g validate_fields_Cons_result True td
        by (cases d) auto
    next
      case (Some v)
      with errs have "errors_of (fst (validate c t v w)) = []"
        by (simp add: True td)
      then obtain x where x: "fst (validate c t v w) = Inr x"
        using validate_success_iff[of c t v w] by blast
      show ?thesis
        unfolding g validate_fields_Cons_result True td
        using x by (auto simp: Some)
    qed
  next
    case False
    with Cons.prems(1) g have m: "map_of fs n = Some (t, d)" by simp
    have tail: "\<exists>w1. fst (fst (validate_fields c fs kvs w1)) = []
        \<and> map_of (snd (fst (validate_fields c (g # fs) kvs w))) n
           = map_of (snd (fst (validate_fields c fs kvs w1))) n"
    proof (cases "map_of kvs n'")
      case None
      then show ?thesis
        using errs False unfolding g validate_fields_Cons_result
        by (cases d') auto
    next
      case (Some v)
      with errs have "errors_of (fst (validate c t' v w)) = []" by simp
      then obtain x where x: "fst (validate c t' v w) = Inr x"
        using validate_success_iff[of c t' v w] by blast
      show ?thesis
        using errs False x unfolding g validate_fields_Cons_result
        by (auto simp: Some)
    qed
    then obtain w1 where w1: "fst (fst (validate_fields c fs kvs w1)) = []"
      and eq: "map_of (snd (fst (validate_fields c (g # fs) kvs w))) n
           = map_of (snd (fst (validate_fields c fs kvs w1))) n" by blast
    from Cons.IH[OF m w1] show ?thesis
      unfolding eq .
  qed
qed

lemma call_factory_uuid4: "call_factory Factory_uuid4 w = (VUuid (fst (uuid4 w)), snd (uuid4 w))"
  by (simp split: prod.splits)

lemma call_factory_utcnow: "call_factory Factory_utcnow w = (VDatetime (fst (utcnow w)), snd (utcnow w))"
  by (simp split: prod.splits)

lemma model_validate_Inr:
  "fst (model_validate c cls (JObj kvs) w) = Inr a \<Longrightarrow>
   fst (fst (validate_fields c cls kvs w)) = [] \<and> a = VModel (snd (fst (validate_fields c cls kvs w)))"
  by (auto simp: model_validate_JObj split: if_splits)

lemma validate_TOptional:
  "validate c (TOptional t) v w = (if v = JNull then (Inr VNone, w) else validate c t v w)"
  by (cases v) simp_all

lemma validate_fields_names:
  "fst (fst (validate_fields c fs kvs w)) = [] \<Longrightarrow>
   map fst (snd (fst (validate_fields c fs kvs w))) = map fst fs"
proof (induction fs arbitrary: w)
  case Nil
  then show ?case by simp
next
  case (Cons g fs)
  obtain n t d where g: "g = (n, t, d)" by (cases g) auto
  note errs = Cons.prems[unfolded g validate_fields_Cons_errors]
  show ?case
  proof (cases "map_of kvs n")
    case None
    then show ?thesis
      using errs Cons.IH unfolding g validate_fields_Cons_result
      by (cases d) auto
  next
    case (Some v)
    with errs have "errors_of (fst (validate c t v w)) = []" by simp
    then obtain x where x: "fst (validate c t v w) = Inr x"
      using validate_success_iff[of c t v w] by blast
    show ?thesis
      using errs Cons.IH x unfolding g validate_fields_Cons_result
      by (auto simp: Some)
  qed
qed

lemma model_validate_unknown_field:
  assumes "fst (model_validate c cls (JObj kvs) w) = Inr a" and "n \<notin> set (field_names cls)"
  shows "field_of a n = None"
proof -
  from model_validate_Inr[OF assms(1)]
  have e: "fst (fst (validate_fields c cls kvs w)) = []"
    and a: "a = VModel (snd (fst (validate_fields c cls kvs w)))" by simp_all
  from validate_fields_names[OF e] assms(2)
  have "n \<notin> fst ` set (snd (fst (validate_fields c cls kvs w)))"
    by (metis field_names_def set_map)
  then show ?thesis
    by (simp add: a map_of_eq_None_iff)
qed

lemma coursework_base_field_cases:
  assumes "n \<in> {''title'', ''semester'', ''professor'', ''people''}"
    and "map_of (CourseworkBase P) n = Some (t, d)"
  shows "n = ''title'' \<and> t = TStr \<or> n = ''semester'' \<and> t = TStr
        \<or> n = ''professor'' \<and> t = TModel P \<or> n = ''people'' \<and> t = TList (TModel P)"
proof -
  from assms(1) consider "n = ''title''" | "n = ''semester''" | "n = ''professor''" | "n = ''people''"
    by blast
  then show ?thesis
  proof cases
    case 1
    with assms(2) show ?thesis by (simp add: CourseworkBase_def)
  next
    case 2
    with assms(2) show ?thesis by (simp add: CourseworkBase_def)
  next
    case 3
    with assms(2) show ?thesis by (simp add: CourseworkBase_def)
  next
    case 4
    with assms(2) show ?thesis by (simp add: CourseworkBase_def)
  qed
qed

lemma id_default_generated:
  assumes cls: "cls = (''id'', TUuid, DefaultFactory Factory_uuid4) # rest"
    and rest: "''id'' \<notin> fst ` set rest"
    and ok: "fst (model_validate c cls (JObj ((''id'', j) # kvs)) w0) = Inr a0"
    and absent: "map_of kvs ''id'' = None"
  shows "\<exists>a. fst (model_validate c cls (JObj kvs) w) = Inr a
           \<and> field_of a ''id'' = Some (VUuid (fst (uuid4 w)))"
proof -
  from model_validate_Inr[OF ok]
  have "fst (fst (validate_fields c cls ((''id'', j) # kvs) w0)) = []" by simp
  then have "fst (fst (validate_fields c rest ((''id'', j) # kvs)
      (snd (validate c TUuid j w0)))) = []"
    unfolding cls validate_fields_Cons_errors by simp
  moreover have "validate_fields c rest ((''id'', j) # kvs) w' = validate_fields c rest kvs w'" for w'
    by (rule validate_fields_lookup_cong) (use rest in force)
  ultimately have "fst (fst (validate_fields c rest kvs (snd (validate c TUuid j w0)))) = []"
    by simp
  then have e: "fst (fst (validate_fields c rest kvs (snd (uuid4 w)))) = []"
    using validate_errors_world(2)[of c rest kvs "snd (uuid4 w)" "snd (validate c TUuid j w0)"]
    by simp
  have errs: "fst (fst (validate_fields c cls kvs w)) = []"
    unfolding cls validate_fields_Cons_errors
    by (simp add: absent e call_factory_uuid4 del: call_factory.simps)
  have res: "map_of (snd (fst (validate_fields c cls kvs w))) ''id'' = Some (VUuid (fst (uuid4 w)))"
    unfolding cls validate_fields_Cons_result
    by (simp add: absent call_factory_uuid4 del: call_factory.simps)
  show ?thesis
    unfolding model_validate_JObj using errs res by simp
qed

lemma id_supplied_kept:
  assumes m: "map_of cls ''id'' = Some (TUuid, d)"
    and ok: "fst (model_validate c cls (JObj kvs) w) = Inr a"
    and given: "map_of kvs ''id'' = Some (JStr s)"
    and parsed: "uuid_of_str c s = Some u"
  shows "field_of a ''id'' = Some (VUuid u)"
proof -
  from model_validate_Inr[OF ok]
  have e: "fst (fst (validate_fields c cls kvs w)) = []"
    and a: "a = VModel (snd (fst (validate_fields c cls kvs w)))" by simp_all
  from field_result[OF m e] given
  obtain w1 x where "fst (validate c TUuid (JStr s) w1) = Inr x"
    and "map_of (snd (fst (validate_fields c cls kvs w))) ''id'' = Some x"
    by auto
  then show ?thesis
    by (simp add: a parsed)
qed

lemma id_supplied_accepted:
  assumes cls: "cls = (''id'', TUuid, DefaultFactory Factory_uuid4) # rest"
    and rest: "''id'' \<notin> fst ` set rest"
    and given: "map_of kvs ''id'' = Some (JStr s)"
    and parsed: "uuid_of_str c s = Some u"
    and ok: "fst (model_validate c cls (JObj (filter (\<lambda>kv. fst kv \<noteq> ''id'') kvs)) w0) = Inr a0"
  shows "\<exists>a. fst (model_validate c cls (JObj kvs) w) = Inr a
           \<and> field_of a ''id'' = Some (VUuid u)"
proof -
  let ?kvs0 = "filter (\<lambda>kv. fst kv \<noteq> ''id'') kvs"
  have absent: "map_of ?kvs0 ''id'' = None"
    by (simp add: map_of_filter_key)
  from model_validate_Inr[OF ok]
  have "fst (fst (validate_fields c cls ?kvs0 w0)) = []" by simp
  then have "fst (fst (validate_fields c rest ?kvs0 (snd (uuid4 w0)))) = []"
    unfolding cls validate_fields_Cons_errors
    by (simp add: absent call_factory_uuid4 del: call_factory.simps)
  moreover have "validate_fields c rest ?kvs0 w' = validate_fields c rest kvs w'" for w'
    by (rule validate_fields_lookup_cong) (use rest in \<open>force simp: map_of_filter_key\<close>)
  ultimately have "fst (fst (validate_fields c rest kvs (snd (uuid4 w0)))) = []"
    by simp
  then have e: "fst (fst (validate_fields c rest kvs w)) = []"
    using validate_errors_world(2)[of c rest kvs w "snd (uuid4 w0)"] by simp
  have v: "validate c TUuid (JStr s) w = (Inr (VUuid u), w)"
    by (simp add: parsed)
  have errs: "fst (fst (validate_fields c cls kvs w)) = []"
    unfolding cls validate_fields_Cons_errors
    by (simp add: given v e del: validate.simps)
  have res: "map_of (snd (fst (validate_fields c cls kvs w))) ''id'' = Some (VUuid u)"
    unfolding cls validate_fields_Cons_result
    by (simp add: given v del: validate.simps)
  show ?thesis
    unfolding model_validate_JObj using errs res by simp
qed

lemma example_assignment_validates:
  assumes "date_of_str c ''2025-12-31'' = Some dd" and "email_of_str c ''d@f.edu'' = Some e"
  shows "fst (model_validate c (AssignmentCreate PersonBase_spec) (JObj example_assignment) w)
     = Inr (VModel [
         (''id'', VUuid (fst (uuid4 w))),
         (''title'', VStr ''HW1''),
         (''description'', VStr ''...''),
         (''due_date'', VDate dd),
         (''coursework'', VModel [
            (''id'', VUuid (fst (uuid4 (snd (uuid4 w))))),
            (''title'', VStr ''CC''),
            (''semester'', VStr ''Fall 2025''),
            (''professor'', VModel [
               (''uni'', VStr ''df123''),
               (''first_name'', VStr ''Donald''),
               (''last_name'', VStr ''Ferguson''),
               (''email'', VStr e),
               (''addresses'', VList [])]),
            (''people'', VList [])]),
         (''created_at'', VDatetime (fst (utcnow w)))])"
  using assms
  by (simp add: model_validate_def AssignmentCreate_eq AssignmentBase_def CourseworkBase_def
      PersonBase_spec_def example_assignment_def example_coursework_def example_professor_def
      uuid4_def utcnow_def)

subsection \<open>The world of a validation\<close>

text \<open>A validation only moves the world forward, by the factories it calls; when it calls
  none, its result is the same in every world.\<close>

lemma later_refl [simp]: "later w w"
  by (simp add: later_def)

lemma later_trans: "later w w1 \<Longrightarrow> later w1 w2 \<Longrightarrow> later w w2"
  by (auto simp: later_def)

lemma later_antisym: "later w w1 \<Longrightarrow> later w1 w \<Longrightarrow> w1 = w"
  by (cases w; cases w1) (auto simp: later_def)

lemma later_call_factory: "later w (snd (call_factory f w))"
  by (cases f) (simp_all add: later_def uuid4_def utcnow_def)

lemma call_factory_no_draw:
  "snd (call_factory f w) = w \<Longrightarrow> call_factory f w' = (fst (call_factory f w), w')"
  by (cases f; cases w) (auto simp: uuid4_def utcnow_def)

lemma validate_TModel_world:
  "snd (validate c (TModel fs) v w) =
     (case v of JObj kvs \<Rightarrow> snd (validate_fields c fs kvs w) | _ \<Rightarrow> w)"
  by (simp split: json.splits prod.splits)

lemma validate_TList_world:
  "snd (validate c (TList t) v w) =
     (case v of JArr xs \<Rightarrow> snd (validate_items c t xs 0 w) | _ \<Rightarrow> w)"
  by (simp split: json.splits prod.splits)

lemma validate_items_Cons_world:
  "snd (validate_items c t (x # xs) i w) =
     snd (validate_items c t xs (Suc i) (snd (validate c t x w)))"
  by (simp split: prod.splits sum.splits)

lemma validate_later:
  "later w (snd (validate c t v w))"
  "later w (snd (validate_fields c fs kvs w))"
  "later w (snd (validate_items c t xs i w))"
proof (induction c t v w and c fs kvs w and c t xs i w
    rule: validate_validate_fields_validate_items.induct)
  case (7 c t v w)
  have "v \<noteq> JNull \<Longrightarrow> later w (snd (validate c t v w))"
    by (cases v) ((simp; fail) | (rule "7.IH", assumption))+
  then show ?case
    by (cases v) simp_all
next
  case (8 c t v w)
  show ?case
  proof (cases v)
    case (JArr xs)
    from "8.IH"[OF JArr] show ?thesis
      unfolding validate_TList_world by (simp add: JArr)
  qed simp_all
next
  case (9 c fs v w)
  show ?case
  proof (cases v)
    case (JObj kvs)
    from "9.IH"[OF JObj] show ?thesis
      unfolding validate_TModel_world by (simp add: JObj)
  qed simp_all
next
  case (11 c n t d fs kvs w)
  show ?case
  proof (cases "map_of kvs n")
    case None
    show ?thesis
    proof (cases d)
      case Required
      from "11.IH"(1)[OF None Required] show ?thesis
        unfolding validate_fields_Cons_world by (simp add: None Required)
    next
      case (Default x)
      from "11.IH"(2)[OF None Default] show ?thesis
        unfolding validate_fields_Cons_world by (simp add: None Default)
    next
      case (DefaultFactory f)
      have eq: "(fst (call_factory f w), snd (call_factory f w)) = call_factory f w" by simp
      from later_trans[OF later_call_factory "11.IH"(3)[OF None DefaultFactory eq]]
      show ?thesis
        unfolding validate_fields_Cons_world by (simp add: None DefaultFactory)
    qed
  next
    case (Some v)
    have a: "later w (snd (validate c t v w))"
      by (rule "11.IH"(4)[OF Some])
    have b: "later (snd (validate c t v w)) (snd (validate_fields c fs kvs (snd (validate c t v w))))"
    proof (cases "fst (validate c t v w)")
      case (Inl es)
      from Inl have eq: "(Inl es, snd (validate c t v w)) = validate c t v w"
        by (simp add: prod_eq_iff)
      show ?thesis by (rule "11.IH"(5)[OF Some eq refl])
    next
      case (Inr y)
      from Inr have eq: "(Inr y, snd (validate c t v w)) = validate c t v w"
        by (simp add: prod_eq_iff)
      show ?thesis by (rule "11.IH"(6)[OF Some eq refl])
    qed
    from later_trans[OF a b] show ?thesis
      unfolding validate_fields_Cons_world by (simp add: Some)
  qed
next
  case (13 c t x xs i w)
  have a: "later w (snd (validate c t x w))"
    by (rule "13.IH"(1))
  have b: "later (snd (validate c t x w)) (snd (validate_items c t xs (Suc i) (snd (validate c t x w))))"
  proof (cases "fst (validate c t x w)")
    case (Inl es)
    from Inl have eq: "(Inl es, snd (validate c t x w)) = validate c t x w"
      by (simp add: prod_eq_iff)
    show ?thesis by (rule "13.IH"(2)[OF eq refl])
  next
    case (Inr y)
    from Inr have eq: "(Inr y, snd (validate c t x w)) = validate c t x w"
      by (simp add: prod_eq_iff)
    show ?thesis by (rule "13.IH"(3)[OF eq refl])
  qed
  from later_trans[OF a b] show ?case
    unfolding validate_items_Cons_world .
qed (simp_all split: json.splits option.splits)

lemma validate_no_draw:
  "snd (validate c t v w) = w \<Longrightarrow> validate c t v w' = (fst (validate c t v w), w')"
  "snd (validate_fields c fs kvs w) = w \<Longrightarrow>
     validate_fields c fs kvs w' = (fst (validate_fields c fs kvs w), w')"
  "snd (validate_items c t xs i w) = w \<Longrightarrow>
     validate_items c t xs i w' = (fst (validate_items c t xs i w), w')"
proof (induction c t v w and c fs kvs w and c t xs i w arbitrary: w' and w' and w'
    rule: validate_validate_fields_validate_items.induct)
  case (7 c t v w)
  have "v \<noteq> JNull \<Longrightarrow> validate c t v w' = (fst (validate c t v w), w')"
  proof -
    assume nn: "v \<noteq> JNull"
    with "7.prems" have p: "snd (validate c t v w) = w" by (cases v) simp_all
    from nn show ?thesis
      by (cases v) ((simp; fail) | (rule "7.IH"[OF _ p], assumption))+
  qed
  then show ?case
    by (cases v) simp_all
next
  case (8 c t v w)
  show ?case
  proof (cases v)
    case (JArr xs)
    with "8.prems" have p: "snd (validate_items c t xs 0 w) = w"
      unfolding validate_TList_world by simp
    obtain q where q: "validate_items c t xs 0 w = (q, w)"
      using p by (cases "validate_items c t xs 0 w") simp
    from "8.IH"[OF JArr p, of w'] q have "validate_items c t xs 0 w' = (q, w')" by simp
    with q show ?thesis
      by (simp add: JArr split: prod.splits)
  qed simp_all
next
  case (9 c fs v w)
  show ?case
  proof (cases v)
    case (JObj kvs)
    with "9.prems" have p: "snd (validate_fields c fs kvs w) = w"
      unfolding validate_TModel_world by simp
    obtain q where q: "validate_fields c fs kvs w = (q, w)"
      using p by (cases "validate_fields c fs kvs w") simp
    from "9.IH"[OF JObj p, of w'] q have "validate_fields c fs kvs w' = (q, w')" by simp
    with q show ?thesis
      by (simp add: JObj split: prod.splits)
  qed simp_all
next
  case (11 c n t d fs kvs w)
  note prem = "11.prems"[unfolded validate_fields_Cons_world]
  show ?case
  proof (cases "map_of kvs n")
    case None
    show ?thesis
    proof (cases d)
      case Required
      from prem have p: "snd (validate_fields c fs kvs w) = w" by (simp add: None Required)
      obtain q where q: "validate_fields c fs kvs w = (q, w)"
        using p by (cases "validate_fields c fs kvs w") simp
      from "11.IH"(1)[OF None Required p, of w'] q
      have "validate_fields c fs kvs w' = (q, w')" by simp
      with q show ?thesis
        by (simp add: None Required split: prod.splits)
    next
      case (Default x)
      from prem have p: "snd (validate_fields c fs kvs w) = w" by (simp add: None Default)
      obtain q where q: "validate_fields c fs kvs w = (q, w)"
        using p by (cases "validate_fields c fs kvs w") simp
      from "11.IH"(2)[OF None Default p, of w'] q
      have "validate_fields c fs kvs w' = (q, w')" by simp
      with q show ?thesis
        by (simp add: None Default split: prod.splits)
    next
      case (DefaultFactory f)
      let ?w1 = "snd (call_factory f w)"
      from prem have p1: "snd (validate_fields c fs kvs ?w1) = w"
        by (simp add: None DefaultFactory)
      have "later ?w1 w"
        using validate_later(2)[of ?w1 c fs kvs] p1 by simp
      with later_call_factory[of w f] have w1: "?w1 = w"
        by (rule later_antisym)
      with p1 have p: "snd (validate_fields c fs kvs w) = w" by simp
      obtain y where y: "call_factory f w = (y, w)"
        using w1 by (cases "call_factory f w") simp
      from call_factory_no_draw[OF w1, of w'] y have y': "call_factory f w' = (y, w')" by simp
      obtain q where q: "validate_fields c fs kvs w = (q, w)"
        using p by (cases "validate_fields c fs kvs w") simp
      have eq: "(y, w) = call_factory f w" using y by simp
      from "11.IH"(3)[OF None DefaultFactory eq p, of w'] q
      have "validate_fields c fs kvs w' = (q, w')" by simp
      with q y y' show ?thesis
        by (simp add: None DefaultFactory split: prod.splits del: call_factory.simps)
    qed
  next
    case (Some v)
    let ?w1 = "snd (validate c t v w)"
    from prem have p1: "snd (validate_fields c fs kvs ?w1) = w" by (simp add: Some)
    have "later ?w1 w"
      using validate_later(2)[of ?w1 c fs kvs] p1 by simp
    with validate_later(1)[of w c t v] have w1: "?w1 = w"
      by (rule later_antisym)
    with p1 have p: "snd (validate_fields c fs kvs w) = w" by simp
    obtain r where r: "validate c t v w = (r, w)"
      using w1 by (cases "validate c t v w") simp
    from "11.IH"(4)[OF Some w1, of w'] r have r': "validate c t v w' = (r, w')" by simp
    obtain q where q: "validate_fields c fs kvs w = (q, w)"
      using p by (cases "validate_fields c fs kvs w") simp
    have q': "validate_fields c fs kvs w' = (q, w')"
    proof (cases r)
      case (Inl es)
      with r have eq: "(Inl es, w) = validate c t v w" by simp
      from "11.IH"(5)[OF Some eq refl p, of w'] q show ?thesis by simp
    next
      case (Inr x)
      with r have eq: "(Inr x, w) = validate c t v w" by simp
      from "11.IH"(6)[OF Some eq refl p, of w'] q show ?thesis by simp
    qed
    from r r' q q' show ?thesis
      by (simp add: Some split: prod.splits sum.splits)
  qed
next
  case (13 c t x xs i w)
  note prem = "13.prems"[unfolded validate_items_Cons_world]
  let ?w1 = "snd (validate c t x w)"
  have "later ?w1 w"
    using validate_later(3)[of ?w1 c t xs "Suc i"] prem by simp
  with validate_later(1)[of w c t x] have w1: "?w1 = w"
    by (rule later_antisym)
  with prem have p: "snd (validate_items c t xs (Suc i) w) = w" by simp
  obtain r where r: "validate c t x w = (r, w)"
    using w1 by (cases "validate c t x w") simp
  from "13.IH"(1)[OF w1, of w'] r have r': "validate c t x w' = (r, w')" by simp
  obtain q where q: "validate_items c t xs (Suc i) w = (q, w)"
    using p by (cases "validate_items c t xs (Suc i) w") simp
  have q': "validate_items c t xs (Suc i) w' = (q, w')"
  proof (cases r)
    case (Inl es)
    with r have eq: "(Inl es, w) = validate c t x w" by simp
    from "13.IH"(2)[OF eq refl p, of w'] q show ?thesis by simp
  next
    case (Inr y)
    with r have eq: "(Inr y, w) = validate c t x w" by simp
    from "13.IH"(3)[OF eq refl p, of w'] q show ?thesis by simp
  qed
  from r r' q q' show ?case
    by (simp split: prod.splits sum.splits)
qed (simp_all split: json.splits option.splits)

subsection \<open>Validating a serialized value\<close>

text \<open>A value that a well-formed annotation produced, and whose scalars are read back from
  their written form, validates from its serialization to itself, in any world and without
  changing it.\<close>

lemma validate_VNone: "fst (validate c t v w) = Inr VNone \<Longrightarrow> v = JNull"
proof (induction t arbitrary: v)
  case (TOptional t)
  then show ?case by (cases v) auto
qed (auto split: json.splits option.splits prod.splits if_splits)

lemma dump_JNull: "dump c x = JNull \<longleftrightarrow> x = VNone"
  by (cases x) simp_all

lemma factory_value_revalidates:
  assumes "factory_ok f t" and "scalars_roundtrip c (fst (call_factory f w))"
  shows "validate c t (dump c (fst (call_factory f w))) w'
           = (Inr (fst (call_factory f w)), w')"
proof (cases f)
  case Factory_uuid4
  with assms show ?thesis
    by (auto simp: call_factory_uuid4 simp del: call_factory.simps)
next
  case Factory_utcnow
  with assms show ?thesis
    by (auto simp: call_factory_utcnow simp del: call_factory.simps)
next
  case Factory_list
  with assms show ?thesis
    by (auto split: ftype.splits)
qed

lemma default_revalidates:
  assumes "default_ok t (Default y)"
  shows "validate c t (dump c y) w' = (Inr y, w')"
  using assms by (cases t) simp_all

lemma map_of_dumped:
  assumes "distinct (map fst r)" and "(n, x) \<in> set r"
  shows "map_of (map (\<lambda>(k, v). (k, dump c v)) r) n = Some (dump c x)"
proof -
  have "distinct (map fst (map (\<lambda>(k, v). (k, dump c v)) r))"
    using assms(1) by (simp add: comp_def case_prod_beta)
  moreover have "(n, dump c x) \<in> set (map (\<lambda>(k, v). (k, dump c v)) r)"
    using assms(2) by force
  ultimately show ?thesis by (rule map_of_is_SomeI)
qed

lemma validate_roundtrip:
  "wf_type t \<Longrightarrow> email_idempotent c \<Longrightarrow> validate c t v w = (Inr x, w1) \<Longrightarrow>
     scalars_roundtrip c x \<Longrightarrow> validate c t (dump c x) w' = (Inr x, w')"
  "wf_fields fs \<Longrightarrow> email_idempotent c \<Longrightarrow> validate_fields c fs kvs w = (([], r), w1) \<Longrightarrow>
     list_all (\<lambda>kv. scalars_roundtrip c (snd kv)) r \<Longrightarrow>
     (\<And>n x. (n, x) \<in> set r \<Longrightarrow> map_of kvs' n = Some (dump c x)) \<Longrightarrow>
     validate_fields c fs kvs' w' = (([], r), w')"
  "wf_type t \<Longrightarrow> email_idempotent c \<Longrightarrow> validate_items c t xs i w = (([], vs), w1) \<Longrightarrow>
     list_all (scalars_roundtrip c) vs \<Longrightarrow>
     validate_items c t (map (dump c) vs) j w' = (([], vs), w')"
proof (induction c t v w and c fs kvs w and c t xs i w
    arbitrary: x w1 w' and r w1 kvs' w' and vs w1 j w'
    rule: validate_validate_fields_validate_items.induct)
  case (1 c v w)
  then show ?case by (auto split: json.splits)
next
  case (2 c m v w)
  then show ?case by (auto split: json.splits if_splits)
next
  case (3 c v w)
  then show ?case by (auto simp: email_idempotent_def split: json.splits option.splits)
next
  case (4 c v w)
  then show ?case by (auto split: json.splits option.splits)
next
  case (5 c v w)
  then show ?case by (auto split: json.splits option.splits)
next
  case (6 c v w)
  then show ?case by (auto split: json.splits option.splits)
next
  case (7 c t v w)
  show ?case
  proof (cases "v = JNull")
    case True
    with "7.prems" show ?thesis by simp
  next
    case False
    with "7.prems"(3) have ok: "validate c t v w = (Inr x, w1)"
      by (cases v) simp_all
    have wf: "wf_type t" using "7.prems"(1) by simp
    have "validate c t (dump c x) w' = (Inr x, w')"
      using False
      by (cases v) ((simp; fail) | (rule "7.IH"[OF _ wf "7.prems"(2) ok "7.prems"(4)], assumption))+
    moreover have "x \<noteq> VNone"
      using validate_VNone[of c t v w] ok False by auto
    ultimately show ?thesis
      unfolding validate_TOptional by (simp add: dump_JNull)
  qed
next
  case (8 c t v w)
  show ?case
  proof (cases v)
    case (JArr xs)
    obtain errs vs wa where it: "validate_items c t xs 0 w = ((errs, vs), wa)"
      by (metis prod.exhaust)
    with "8.prems"(3) JArr have e: "errs = []" and x: "x = VList vs" and wa: "wa = w1"
      by (auto split: if_splits)
    have wf: "wf_type t" using "8.prems"(1) by simp
    have "list_all (scalars_roundtrip c) vs" using "8.prems"(4) x by simp
    from "8.IH"[OF JArr wf "8.prems"(2) it[unfolded e wa] this, of 0 w']
    show ?thesis by (simp add: x)
  qed (use "8.prems" in simp_all)
next
  case (9 c fs v w)
  show ?case
  proof (cases v)
    case (JObj kvs)
    obtain errs r wa where it: "validate_fields c fs kvs w = ((errs, r), wa)"
      by (metis prod.exhaust)
    with "9.prems"(3) JObj have e: "errs = []" and x: "x = VModel r" and wa: "wa = w1"
      by (auto split: if_splits)
    have wf: "wf_fields fs" and dist: "distinct (map fst fs)" using "9.prems"(1) by simp_all
    have sr: "list_all (\<lambda>kv. scalars_roundtrip c (snd kv)) r" using "9.prems"(4) x by simp
    have "map fst r = map fst fs"
      using validate_fields_names[of c fs kvs w] it e by simp
    with dist have "distinct (map fst r)" by simp
    then have look: "\<And>n y. (n, y) \<in> set r \<Longrightarrow>
        map_of (map (\<lambda>(k, v). (k, dump c v)) r) n = Some (dump c y)"
      by (rule map_of_dumped)
    from "9.IH"[OF JObj wf "9.prems"(2) it[unfolded e wa] sr look, of w']
    show ?thesis by (simp add: x)
  qed (use "9.prems" in simp_all)
next
  case (10 c kvs w)
  then show ?case by simp
next
  case (11 c n t d fs kvs w)
  have wft: "wf_type t" and wfs: "wf_fields fs" and dok: "default_ok t d"
    using "11.prems"(1) by simp_all
  note idem = "11.prems"(2)
  note prem = "11.prems"(3)
  show ?case
  proof (cases "map_of kvs n")
    case None
    show ?thesis
    proof (cases d)
      case Required
      with prem None show ?thesis by (simp split: prod.splits)
    next
      case (Default y)
      obtain errs r' wa where fa: "validate_fields c fs kvs w = ((errs, r'), wa)"
        by (metis prod.exhaust)
      with prem None Default have e: "errs = []" and r: "r = (n, y) # r'" and wa: "wa = w1"
        by simp_all
      have sr: "list_all (\<lambda>kv. scalars_roundtrip c (snd kv)) r'"
        using "11.prems"(4) r by simp
      have look: "\<And>m z. (m, z) \<in> set r' \<Longrightarrow> map_of kvs' m = Some (dump c z)"
        using "11.prems"(5) r by simp
      have rest: "validate_fields c fs kvs' w' = (([], r'), w')"
        by (rule "11.IH"(2)[OF None Default wfs idem fa[unfolded e wa] sr look])
      have here: "map_of kvs' n = Some (dump c y)"
        using "11.prems"(5)[of n y] r by simp
      have "validate c t (dump c y) w' = (Inr y, w')"
        using dok Default by (intro default_revalidates) simp
      with here rest show ?thesis
        by (simp add: r)
    next
      case (DefaultFactory f)
      obtain y wf where cf: "call_factory f w = (y, wf)"
        by (metis prod.exhaust)
      obtain errs r' wa where fa: "validate_fields c fs kvs wf = ((errs, r'), wa)"
        by (metis prod.exhaust)
      with prem None DefaultFactory cf
      have e: "errs = []" and r: "r = (n, y) # r'" and wa: "wa = w1"
        by simp_all
      have sr: "list_all (\<lambda>kv. scalars_roundtrip c (snd kv)) r'"
        and sy: "scalars_roundtrip c y"
        using "11.prems"(4) r by simp_all
      have look: "\<And>m z. (m, z) \<in> set r' \<Longrightarrow> map_of kvs' m = Some (dump c z)"
        using "11.prems"(5) r by simp
      have rest: "validate_fields c fs kvs' w' = (([], r'), w')"
        by (rule "11.IH"(3)[OF None DefaultFactory cf[symmetric] wfs idem fa[unfolded e wa] sr look])
      have here: "map_of kvs' n = Some (dump c y)"
        using "11.prems"(5)[of n y] r by simp
      have "validate c t (dump c y) w' = (Inr y, w')"
        using factory_value_revalidates[of f t c w w'] dok DefaultFactory cf sy by simp
      with here rest show ?thesis
        by (simp add: r)
    qed
  next
    case (Some v)
    obtain res wv where va: "validate c t v w = (res, wv)"
      by (metis prod.exhaust)
    obtain errs r' wa where fa: "validate_fields c fs kvs wv = ((errs, r'), wa)"
      by (metis prod.exhaust)
    show ?thesis
    proof (cases res)
      case (Inl es)
      with va have "es \<noteq> []" using validate_Inl_nonempty[of c t v w es] by simp
      with prem Some va fa Inl show ?thesis by simp
    next
      case (Inr y)
      with prem Some va fa
      have e: "errs = []" and r: "r = (n, y) # r'" and wa: "wa = w1"
        by simp_all
      have sr: "list_all (\<lambda>kv. scalars_roundtrip c (snd kv)) r'"
        and sy: "scalars_roundtrip c y"
        using "11.prems"(4) r by simp_all
      have look: "\<And>m z. (m, z) \<in> set r' \<Longrightarrow> map_of kvs' m = Some (dump c z)"
        using "11.prems"(5) r by simp
      have va': "validate c t v w = (Inr y, wv)" using va Inr by simp
      have rest: "validate_fields c fs kvs' w' = (([], r'), w')"
        by (rule "11.IH"(6)[OF Some va'[symmetric] refl wfs idem fa[unfolded e wa] sr look])
      have here: "map_of kvs' n = Some (dump c y)"
        using "11.prems"(5)[of n y] r by simp
      have "validate c t (dump c y) w' = (Inr y, w')"
        by (rule "11.IH"(4)[OF Some wft idem va' sy])
      with here rest show ?thesis
        by (simp add: r)
    qed
  qed
next
  case (12 c t i w)
  then show ?case by simp
next
  case (13 c t x xs i w)
  note wft = "13.prems"(1) and idem = "13.prems"(2) and prem = "13.prems"(3)
  obtain res wv where va: "validate c t x w = (res, wv)"
    by (metis prod.exhaust)
  obtain errs vs' wa where fa: "validate_items c t xs (Suc i) wv = ((errs, vs'), wa)"
    by (metis prod.exhaust)
  show ?case
  proof (cases res)
    case (Inl es)
    with va have "es \<noteq> []" using validate_Inl_nonempty[of c t x w es] by simp
    with prem va fa Inl show ?thesis by simp
  next
    case (Inr y)
    with prem va fa
    have e: "errs = []" and vs: "vs = y # vs'" and wa: "wa = w1"
      by simp_all
    have sr: "list_all (scalars_roundtrip c) vs'" and sy: "scalars_roundtrip c y"
      using "13.prems"(4) vs by simp_all
    have va': "validate c t x w = (Inr y, wv)" using va Inr by simp
    have rest: "validate_items c t (map (dump c) vs') (Suc j) w' = (([], vs'), w')"
      by (rule "13.IH"(3)[OF va'[symmetric] refl wft idem fa[unfolded e wa] sr])
    have "validate c t (dump c y) w' = (Inr y, w')"
      by (rule "13.IH"(1)[OF wft idem va' sy])
    with rest show ?thesis
      by (simp add: vs)
  qed
qed

lemma validate_TUuid_value: "fst (validate c TUuid v w) = Inr x \<Longrightarrow> \<exists>u. x = VUuid u"
  by (auto split: json.splits option.splits)

lemma validate_TDatetime_value: "fst (validate c TDatetime v w) = Inr x \<Longrightarrow> \<exists>ts. x = VDatetime ts"
  by (auto split: json.splits option.splits)

lemma wf_AssignmentBase: "wf_type (TModel P) \<Longrightarrow> wf_type (TModel (AssignmentBase P))"
  by (simp add: AssignmentBase_def CourseworkBase_def)

lemma model_validate_is_object:
  "fst (model_validate c cls obj w) = Inr a \<Longrightarrow> \<exists>kvs. obj = JObj kvs"
  by (cases obj) (simp_all add: model_validate_def)

subsection \<open>Fields supplied by the input\<close>




subsection \<open>Two validations of one input\<close>

text \<open>Two successful validations of the same input, in any two worlds, yield objects that
  are alike; they agree on every field whose input calls no factory and on every field
  filled from a static default.\<close>

lemma alike_refl [simp]: "alike x x"
  by (induction x) (auto simp: list_all2_same)

lemma alike_call_factory: "alike (fst (call_factory f w1)) (fst (call_factory f w2))"
  by (cases f) (simp_all split: prod.splits)

lemma validate_alike:
  "validate c t v w1 = (Inr x1, wa) \<Longrightarrow> validate c t v w2 = (Inr x2, wb) \<Longrightarrow> alike x1 x2"
  "validate_fields c fs kvs w1 = (([], r1), wa) \<Longrightarrow> validate_fields c fs kvs w2 = (([], r2), wb) \<Longrightarrow>
     list_all2 (\<lambda>kv kv'. fst kv = fst kv' \<and> alike (snd kv) (snd kv')) r1 r2"
  "validate_items c t xs i w1 = (([], vs1), wa) \<Longrightarrow> validate_items c t xs i w2 = (([], vs2), wb) \<Longrightarrow>
     list_all2 alike vs1 vs2"
proof (induction c t v w1 and c fs kvs w1 and c t xs i w1
    arbitrary: x1 wa w2 x2 wb and r1 wa w2 r2 wb and vs1 wa w2 vs2 wb
    rule: validate_validate_fields_validate_items.induct)
  case (1 c v w)
  then show ?case by (auto split: json.splits)
next
  case (2 c m v w)
  then show ?case by (auto split: json.splits if_splits)
next
  case (3 c v w)
  then show ?case by (auto split: json.splits option.splits)
next
  case (4 c v w)
  then show ?case by (auto split: json.splits option.splits)
next
  case (5 c v w)
  then show ?case by (auto split: json.splits option.splits)
next
  case (6 c v w)
  then show ?case by (auto split: json.splits option.splits)
next
  case (7 c t v w)
  show ?case
  proof (cases "v = JNull")
    case True
    with "7.prems" show ?thesis by simp
  next
    case False
    with "7.prems" have ok1: "validate c t v w = (Inr x1, wa)"
      and ok2: "validate c t v w2 = (Inr x2, wb)"
      by (cases v; simp)+
    from False show ?thesis
      by (cases v) ((simp; fail) | (rule "7.IH"[OF _ ok1 ok2], assumption))+
  qed
next
  case (8 c t v w)
  show ?case
  proof (cases v)
    case (JArr xs)
    obtain e1 vs1 wa' where it1: "validate_items c t xs 0 w = ((e1, vs1), wa')"
      by (metis prod.exhaust)
    obtain e2 vs2 wb' where it2: "validate_items c t xs 0 w2 = ((e2, vs2), wb')"
      by (metis prod.exhaust)
    from "8.prems"(1) JArr it1 have a: "e1 = []" "x1 = VList vs1"
      by (auto split: if_splits)
    from "8.prems"(2) JArr it2 have b: "e2 = []" "x2 = VList vs2"
      by (auto split: if_splits)
    from "8.IH"[OF JArr it1[unfolded a] it2[unfolded b]]
    show ?thesis by (simp add: a b)
  qed (use "8.prems" in simp_all)
next
  case (9 c fs v w)
  show ?case
  proof (cases v)
    case (JObj kvs)
    obtain e1 r1 wa' where it1: "validate_fields c fs kvs w = ((e1, r1), wa')"
      by (metis prod.exhaust)
    obtain e2 r2 wb' where it2: "validate_fields c fs kvs w2 = ((e2, r2), wb')"
      by (metis prod.exhaust)
    from "9.prems"(1) JObj it1 have a: "e1 = []" "x1 = VModel r1"
      by (auto split: if_splits)
    from "9.prems"(2) JObj it2 have b: "e2 = []" "x2 = VModel r2"
      by (auto split: if_splits)
    from "9.IH"[OF JObj it1[unfolded a] it2[unfolded b]]
    show ?thesis by (simp add: a b)
  qed (use "9.prems" in simp_all)
next
  case (10 c kvs w)
  then show ?case by simp
next
  case (11 c n t d fs kvs w)
  note p1 = "11.prems"(1) and p2 = "11.prems"(2)
  show ?case
  proof (cases "map_of kvs n")
    case None
    show ?thesis
    proof (cases d)
      case Required
      with p1 None show ?thesis by (simp split: prod.splits)
    next
      case (Default y)
      obtain e1 r1' wa' where f1: "validate_fields c fs kvs w = ((e1, r1'), wa')"
        by (metis prod.exhaust)
      obtain e2 r2' wb' where f2: "validate_fields c fs kvs w2 = ((e2, r2'), wb')"
        by (metis prod.exhaust)
      from p1 None Default f1 have a: "e1 = []" "r1 = (n, y) # r1'" by simp_all
      from p2 None Default f2 have b: "e2 = []" "r2 = (n, y) # r2'" by simp_all
      from "11.IH"(2)[OF None Default f1[unfolded a] f2[unfolded b]]
      show ?thesis by (simp add: a b)
    next
      case (DefaultFactory f)
      obtain y1 wf1 where c1: "call_factory f w = (y1, wf1)" by (metis prod.exhaust)
      obtain y2 wf2 where c2: "call_factory f w2 = (y2, wf2)" by (metis prod.exhaust)
      obtain e1 r1' wa' where f1: "validate_fields c fs kvs wf1 = ((e1, r1'), wa')"
        by (metis prod.exhaust)
      obtain e2 r2' wb' where f2: "validate_fields c fs kvs wf2 = ((e2, r2'), wb')"
        by (metis prod.exhaust)
      from p1 None DefaultFactory c1 f1 have a: "e1 = []" "r1 = (n, y1) # r1'" by simp_all
      from p2 None DefaultFactory c2 f2 have b: "e2 = []" "r2 = (n, y2) # r2'" by simp_all
      have "alike y1 y2"
        using alike_call_factory[of f w w2] c1 c2 by simp
      with "11.IH"(3)[OF None DefaultFactory c1[symmetric] f1[unfolded a] f2[unfolded b]]
      show ?thesis by (simp add: a b)
    qed
  next
    case (Some v)
    obtain res1 wv1 where v1: "validate c t v w = (res1, wv1)" by (metis prod.exhaust)
    obtain res2 wv2 where v2: "validate c t v w2 = (res2, wv2)" by (metis prod.exhaust)
    obtain e1 r1' wa' where f1: "validate_fields c fs kvs wv1 = ((e1, r1'), wa')"
      by (metis prod.exhaust)
    obtain e2 r2' wb' where f2: "validate_fields c fs kvs wv2 = ((e2, r2'), wb')"
      by (metis prod.exhaust)
    have "\<exists>y1. res1 = Inr y1"
    proof (cases res1)
      case (Inl es)
      with v1 have "es \<noteq> []" using validate_Inl_nonempty[of c t v w es] by simp
      with p1 Some v1 f1 Inl show ?thesis by simp
    qed simp
    then obtain y1 where y1: "res1 = Inr y1" ..
    have "\<exists>y2. res2 = Inr y2"
    proof (cases res2)
      case (Inl es)
      with v2 have "es \<noteq> []" using validate_Inl_nonempty[of c t v w2 es] by simp
      with p2 Some v2 f2 Inl show ?thesis by simp
    qed simp
    then obtain y2 where y2: "res2 = Inr y2" ..
    from p1 Some v1 f1 y1 have a: "e1 = []" "r1 = (n, y1) # r1'" by simp_all
    from p2 Some v2 f2 y2 have b: "e2 = []" "r2 = (n, y2) # r2'" by simp_all
    have "alike y1 y2"
      by (rule "11.IH"(4)[OF Some v1[unfolded y1] v2[unfolded y2]])
    with "11.IH"(6)[OF Some v1[unfolded y1, symmetric] refl f1[unfolded a] f2[unfolded b]]
    show ?thesis by (simp add: a b)
  qed
next
  case (12 c t i w)
  then show ?case by simp
next
  case (13 c t x xs i w)
  note p1 = "13.prems"(1) and p2 = "13.prems"(2)
  obtain res1 wv1 where v1: "validate c t x w = (res1, wv1)" by (metis prod.exhaust)
  obtain res2 wv2 where v2: "validate c t x w2 = (res2, wv2)" by (metis prod.exhaust)
  obtain e1 vs1' wa' where f1: "validate_items c t xs (Suc i) wv1 = ((e1, vs1'), wa')"
    by (metis prod.exhaust)
  obtain e2 vs2' wb' where f2: "validate_items c t xs (Suc i) wv2 = ((e2, vs2'), wb')"
    by (metis prod.exhaust)
  have "\<exists>y1. res1 = Inr y1"
  proof (cases res1)
    case (Inl es)
    with v1 have "es \<noteq> []" using validate_Inl_nonempty[of c t x w es] by simp
    with p1 v1 f1 Inl show ?thesis by simp
  qed simp
  then obtain y1 where y1: "res1 = Inr y1" ..
  have "\<exists>y2. res2 = Inr y2"
  proof (cases res2)
    case (Inl es)
    with v2 have "es \<noteq> []" using validate_Inl_nonempty[of c t x w2 es] by simp
    with p2 v2 f2 Inl show ?thesis by simp
  qed simp
  then obtain y2 where y2: "res2 = Inr y2" ..
  from p1 v1 f1 y1 have a: "e1 = []" "vs1 = y1 # vs1'" by simp_all
  from p2 v2 f2 y2 have b: "e2 = []" "vs2 = y2 # vs2'" by simp_all
  have "alike y1 y2"
    by (rule "13.IH"(1)[OF v1[unfolded y1] v2[unfolded y2]])
  with "13.IH"(3)[OF v1[unfolded y1, symmetric] refl f1[unfolded a] f2[unfolded b]]
  show ?case by (simp add: a b)
qed

lemma supplied_field_agrees:
  assumes m: "map_of cls n = Some (t, d)"
    and given: "map_of kvs n = Some v"
    and nodraw: "snd (validate c t v w0) = w0"
    and ok1: "fst (model_validate c cls (JObj kvs) w1) = Inr a1"
    and ok2: "fst (model_validate c cls (JObj kvs) w2) = Inr a2"
  shows "field_of a1 n = field_of a2 n"
proof -
  have one: "\<exists>x. field_of a n = Some x \<and> fst (validate c t v w0) = Inr x"
    if ok: "fst (model_validate c cls (JObj kvs) w) = Inr a" for w a
  proof -
    from model_validate_Inr[OF ok]
    have e: "fst (fst (validate_fields c cls kvs w)) = []"
      and a: "a = VModel (snd (fst (validate_fields c cls kvs w)))" by simp_all
    from field_result[OF m e] given
    obtain wx x where x: "fst (validate c t v wx) = Inr x"
      and r: "map_of (snd (fst (validate_fields c cls kvs w))) n = Some x"
      by auto
    from validate_no_draw(1)[OF nodraw, of wx] x have "fst (validate c t v w0) = Inr x"
      by simp
    with r show ?thesis by (simp add: a)
  qed
  from one[OF ok1] one[OF ok2] show ?thesis
    by auto
qed

lemma static_default_agrees:
  assumes m: "map_of cls n = Some (t, Default y)"
    and absent: "map_of kvs n = None"
    and ok: "fst (model_validate c cls (JObj kvs) w) = Inr a"
  shows "field_of a n = Some y"
proof -
  from model_validate_Inr[OF ok]
  have e: "fst (fst (validate_fields c cls kvs w)) = []"
    and a: "a = VModel (snd (fst (validate_fields c cls kvs w)))" by simp_all
  from field_result[OF m e] absent show ?thesis
    by (simp add: a)
qed

subsection \<open>Timestamp fields of the variants\<close>

text \<open>
  Claim C1, as amended. \<open>AssignmentBase\<close> and \<open>AssignmentCreate\<close> declare \<open>created_at\<close> and no
  \<open>updated_at\<close>, and \<open>AssignmentRead\<close> declares both. For Coursework the timestamps are placed
  differently: \<open>CourseworkBase\<close> and \<open>CourseworkCreate\<close> declare neither, \<open>CourseworkRead\<close>
  declares \<open>updated_at\<close> only, and \<open>created_at\<close> is declared on \<open>CourseworkUpdate\<close>.
\<close>

theorem timestamp_fields:
  "''created_at'' \<in> set (field_names (AssignmentBase P)) \<and>
   ''updated_at'' \<notin> set (field_names (AssignmentBase P)) \<and>
   ''created_at'' \<in> set (field_names (AssignmentCreate P)) \<and>
   ''updated_at'' \<notin> set (field_names (AssignmentCreate P)) \<and>
   ''created_at'' \<in> set (field_names (AssignmentRead P)) \<and>
   ''updated_at'' \<in> set (field_names (AssignmentRead P)) \<and>
   ''created_at'' \<notin> set (field_names (CourseworkBase P)) \<and>
   ''updated_at'' \<notin> set (field_names (CourseworkBase P)) \<and>
   ''created_at'' \<notin> set (field_names (CourseworkCreate P)) \<and>
   ''updated_at'' \<notin> set (field_names (CourseworkCreate P)) \<and>
   ''created_at'' \<notin> set (field_names (CourseworkRead P)) \<and>
   ''updated_at'' \<in> set (field_names (CourseworkRead P)) \<and>
   ''created_at'' \<in> set (field_names (CourseworkUpdate P))"
  by (simp add: field_names_def AssignmentCreate_eq CourseworkCreate_eq AssignmentRead_eq
      CourseworkRead_eq AssignmentBase_def CourseworkBase_def CourseworkUpdate_def)

text \<open>
  Claim C1 as stated fails on Coursework: neither \<open>CourseworkRead\<close> nor \<open>CourseworkBase\<close>
  nor \<open>CourseworkCreate\<close> carries \<open>created_at\<close>.
\<close>

theorem coursework_timestamps_counterexample:
  "''created_at'' \<notin> set (field_names (CourseworkRead PersonBase_spec)) \<and>
   ''created_at'' \<notin> set (field_names (CourseworkBase PersonBase_spec)) \<and>
   ''created_at'' \<notin> set (field_names (CourseworkCreate PersonBase_spec))"
  by (simp add: field_names_def CourseworkRead_eq CourseworkCreate_eq CourseworkBase_def)

subsection \<open>The fields of \<open>CourseworkUpdate\<close>\<close>

text \<open>
  Claim C2, as amended. \<open>title\<close>, \<open>semester\<close>, \<open>professor\<close> and \<open>people\<close> of \<open>CourseworkBase\<close>
  appear on \<open>CourseworkUpdate\<close> with the same type made \<^verbatim>\<open>Optional\<close> and the default \<open>None\<close>,
  so a patch that mentions just one of them, with an input its Base field accepts, validates
  and carries the validated value. \<open>id\<close> is not a field of \<open>CourseworkUpdate\<close>: a patch that
  supplies one validates without it. The empty patch validates, to \<open>None\<close> for the four fields
  and the current time for \<open>created_at\<close>.
\<close>

theorem coursework_update_fields:
  "''id'' \<notin> set (field_names (CourseworkUpdate P))
   \<and> (fst (model_validate c (CourseworkUpdate P) (JObj kvs) w) = Inr a
        \<longrightarrow> field_of a ''id'' = None)
   \<and> (n \<in> {''title'', ''semester'', ''professor'', ''people''}
        \<and> map_of (CourseworkBase P) n = Some (t, d)
        \<longrightarrow> map_of (CourseworkUpdate P) n = Some (TOptional t, Default VNone))
   \<and> (n \<in> {''title'', ''semester'', ''professor'', ''people''}
        \<and> map_of (CourseworkBase P) n = Some (t, d) \<and> fst (validate c t v w) = Inr x
        \<longrightarrow> (\<exists>b. fst (model_validate c (CourseworkUpdate P) (JObj [(n, v)]) w) = Inr b
                  \<and> field_of b n = Some x))
   \<and> model_validate c (CourseworkUpdate P) (JObj []) w
       = (Inr (VModel [(''title'', VNone), (''semester'', VNone), (''professor'', VNone),
                       (''people'', VNone), (''created_at'', VDatetime (fst (utcnow w)))]),
          snd (utcnow w))"
proof (intro conjI impI)
  show noid: "''id'' \<notin> set (field_names (CourseworkUpdate P))"
    by (simp add: field_names_def CourseworkUpdate_def)
  show "field_of a ''id'' = None"
    if "fst (model_validate c (CourseworkUpdate P) (JObj kvs) w) = Inr a"
    using that noid by (rule model_validate_unknown_field)
  show "map_of (CourseworkUpdate P) n = Some (TOptional t, Default VNone)"
    if "n \<in> {''title'', ''semester'', ''professor'', ''people''}
        \<and> map_of (CourseworkBase P) n = Some (t, d)"
  proof -
    from that have "n = ''title'' \<and> t = TStr \<or> n = ''semester'' \<and> t = TStr
        \<or> n = ''professor'' \<and> t = TModel P \<or> n = ''people'' \<and> t = TList (TModel P)"
      by (intro coursework_base_field_cases) simp_all
    then show ?thesis
      by (elim disjE conjE) (simp_all add: CourseworkUpdate_def)
  qed
  show "\<exists>b. fst (model_validate c (CourseworkUpdate P) (JObj [(n, v)]) w) = Inr b
                  \<and> field_of b n = Some x"
    if h: "n \<in> {''title'', ''semester'', ''professor'', ''people''}
        \<and> map_of (CourseworkBase P) n = Some (t, d) \<and> fst (validate c t v w) = Inr x"
  proof -
    from h obtain w1 where ok: "validate c t v w = (Inr x, w1)"
      by (cases "validate c t v w") auto
    from h have cases: "n = ''title'' \<and> t = TStr \<or> n = ''semester'' \<and> t = TStr
        \<or> n = ''professor'' \<and> t = TModel P \<or> n = ''people'' \<and> t = TList (TModel P)"
      by (intro coursework_base_field_cases) simp_all
    have nn: "v \<noteq> JNull"
      using cases ok by (elim disjE conjE) auto
    from cases show ?thesis
      using ok nn
      by (elim disjE conjE)
        (simp_all add: model_validate_JObj CourseworkUpdate_def validate_TOptional
          validate_fields_Cons_errors validate_fields_Cons_result
          del: validate.simps validate_fields.simps(2) call_factory.simps)
  qed
  show "model_validate c (CourseworkUpdate P) (JObj []) w
       = (Inr (VModel [(''title'', VNone), (''semester'', VNone), (''professor'', VNone),
                       (''people'', VNone), (''created_at'', VDatetime (fst (utcnow w)))]),
          snd (utcnow w))"
    by (simp add: model_validate_def CourseworkUpdate_def split: prod.splits)
qed

text \<open>A patch with a new \<open>title\<close>, and a patch that supplies an \<open>id\<close>.\<close>

theorem coursework_update_fields_witness:
  "map_of (CourseworkBase PersonBase_spec) ''title'' = Some (TStr, Required) \<and>
   map_of (CourseworkUpdate PersonBase_spec) ''title'' = Some (TOptional TStr, Default VNone) \<and>
   fst (validate example_codec TStr (JStr ''Advanced Cloud Computing'') example_world)
     = Inr (VStr ''Advanced Cloud Computing'') \<and>
   (\<exists>b. fst (model_validate example_codec (CourseworkUpdate PersonBase_spec)
             (JObj [(''title'', JStr ''Advanced Cloud Computing'')]) example_world) = Inr b
        \<and> field_of b ''title'' = Some (VStr ''Advanced Cloud Computing'')) \<and>
   fst (model_validate example_codec (CourseworkUpdate PersonBase_spec)
          (JObj [(''id'', JStr ''550e8400-e29b-41d4-a716-446655440000'')]) example_world)
     = Inr (VModel [(''title'', VNone), (''semester'', VNone), (''professor'', VNone),
                    (''people'', VNone),
                    (''created_at'', VDatetime (Datetime 2025 1 15 10 20 30 0 None))]) \<and>
   field_of (VModel [(''title'', VNone), (''semester'', VNone), (''professor'', VNone),
                    (''people'', VNone),
                    (''created_at'', VDatetime (Datetime 2025 1 15 10 20 30 0 None))]) ''id'' = None"
proof -
  have a: "map_of (CourseworkBase PersonBase_spec) ''title'' = Some (TStr, Required)"
    by (simp add: CourseworkBase_def)
  have b: "fst (validate example_codec TStr (JStr ''Advanced Cloud Computing'') example_world)
     = Inr (VStr ''Advanced Cloud Computing'')"
    by simp
  have e: "fst (model_validate example_codec (CourseworkUpdate PersonBase_spec)
          (JObj [(''id'', JStr ''550e8400-e29b-41d4-a716-446655440000'')]) example_world)
     = Inr (VModel [(''title'', VNone), (''semester'', VNone), (''professor'', VNone),
                    (''people'', VNone),
                    (''created_at'', VDatetime (Datetime 2025 1 15 10 20 30 0 None))])"
    by (simp add: model_validate_def CourseworkUpdate_def utcnow_def example_world_def)
  show ?thesis
    using a b e
      coursework_update_fields[where P = PersonBase_spec and c = example_codec
        and kvs = "[(''id'', JStr ''550e8400-e29b-41d4-a716-446655440000'')]"
        and w = example_world
        and a = "VModel [(''title'', VNone), (''semester'', VNone), (''professor'', VNone),
                    (''people'', VNone),
                    (''created_at'', VDatetime (Datetime 2025 1 15 10 20 30 0 None))]"
        and n = "''title''" and t = TStr and d = Required
        and v = "JStr ''Advanced Cloud Computing''" and x = "VStr ''Advanced Cloud Computing''"]
    by simp
qed

text \<open>
  Claim C2 as stated fails on \<open>id\<close>, which \<open>CourseworkBase\<close> declares and \<open>CourseworkUpdate\<close>
  does not.
\<close>

theorem coursework_update_id_counterexample:
  "''id'' \<in> set (field_names (CourseworkBase PersonBase_spec)) \<and>
   ''id'' \<notin> set (field_names (CourseworkUpdate PersonBase_spec))"
  by (simp add: field_names_def CourseworkBase_def CourseworkUpdate_def)

subsection \<open>Required fields\<close>

text \<open>
  Claim C3. An input object that omits \<open>title\<close>, \<open>description\<close> or \<open>due_date\<close> is rejected
  by \<open>AssignmentBase\<close> and \<open>AssignmentCreate\<close>, and one that omits \<open>title\<close> or \<open>semester\<close> is
  rejected by \<open>CourseworkBase\<close> and \<open>CourseworkCreate\<close>: validation returns errors, among them
  \<open>Missing\<close> at the omitted field, and so constructs no object with a substituted value.
\<close>

theorem required_field_missing:
  assumes "(cls \<in> {AssignmentBase P, AssignmentCreate P} \<and>
              f \<in> {''title'', ''description'', ''due_date''})
         \<or> (cls \<in> {CourseworkBase P, CourseworkCreate P} \<and> f \<in> {''title'', ''semester''})"
    and "map_of kvs f = None"
  shows "\<exists>es. fst (model_validate c cls (JObj kvs) w) = Inl es \<and> ([Key f], Missing) \<in> set es"
proof -
  from assms(1) have "\<exists>t. (f, t, Required) \<in> set cls"
    by (auto simp: AssignmentCreate_eq CourseworkCreate_eq AssignmentBase_def CourseworkBase_def)
  then obtain t where "(f, t, Required) \<in> set cls" ..
  from required_missing_error[OF this assms(2)] show ?thesis
    by (rule model_validate_fails)
qed

text \<open>The example input without its \<open>title\<close> and \<open>coursework\<close>.\<close>

theorem required_field_missing_witness:
  "map_of [(''description'', JStr ''...''), (''due_date'', JStr ''2025-12-31'')] ''title'' = None \<and>
   (\<exists>es. fst (model_validate example_codec (AssignmentCreate PersonBase_spec)
             (JObj [(''description'', JStr ''...''), (''due_date'', JStr ''2025-12-31'')])
             example_world) = Inl es
        \<and> ([Key ''title''], Missing) \<in> set es)"
  using required_field_missing[of "AssignmentCreate PersonBase_spec" PersonBase_spec "''title''"
      "[(''description'', JStr ''...''), (''due_date'', JStr ''2025-12-31'')]"
      example_codec example_world]
  by simp

subsection \<open>The \<open>id\<close> of a created object\<close>

text \<open>
  Claim C4. Let a Create input omit \<open>id\<close> and be otherwise valid, that is, validate once an
  \<open>id\<close> is added to it. Then it validates as it is, and its \<open>id\<close> is the UUID that \<^verbatim>\<open>uuid4\<close>
  generates at that moment. A Create input that supplies a UUID and is otherwise valid, that
  is, validates once its \<open>id\<close> is removed, validates with that UUID as its \<open>id\<close>; and whenever
  an input that supplies a UUID validates, it keeps it. The example input
  of the spec validates as \<open>AssignmentCreate\<close> whenever the library reads its date and its
  e-mail address: \<open>id\<close> and the coursework's \<open>id\<close> are generated, \<open>created_at\<close> is the current
  time, and \<open>people\<close> of the coursework is the empty list.
\<close>

theorem create_id:
  "(cls \<in> {AssignmentCreate P, CourseworkCreate P} \<and> map_of kvs ''id'' = None
      \<and> fst (model_validate c cls (JObj ((''id'', j) # kvs)) w0) = Inr a0
      \<longrightarrow> (\<exists>a. fst (model_validate c cls (JObj kvs) w) = Inr a
                \<and> field_of a ''id'' = Some (VUuid (fst (uuid4 w)))))
   \<and> (cls \<in> {AssignmentCreate P, CourseworkCreate P} \<and> map_of kvs ''id'' = Some (JStr s)
      \<and> uuid_of_str c s = Some u \<and> fst (model_validate c cls (JObj kvs) w) = Inr a
      \<longrightarrow> field_of a ''id'' = Some (VUuid u))
   \<and> (cls \<in> {AssignmentCreate P, CourseworkCreate P} \<and> map_of kvs ''id'' = Some (JStr s)
      \<and> uuid_of_str c s = Some u
      \<and> fst (model_validate c cls (JObj (filter (\<lambda>kv. fst kv \<noteq> ''id'') kvs)) w3) = Inr a3
      \<longrightarrow> (\<exists>b. fst (model_validate c cls (JObj kvs) w) = Inr b
                \<and> field_of b ''id'' = Some (VUuid u)))
   \<and> (date_of_str c ''2025-12-31'' = Some dd \<and> email_of_str c ''d@f.edu'' = Some e
      \<longrightarrow> fst (model_validate c (AssignmentCreate PersonBase_spec) (JObj example_assignment) w)
           = Inr (VModel [
               (''id'', VUuid (fst (uuid4 w))),
               (''title'', VStr ''HW1''),
               (''description'', VStr ''...''),
               (''due_date'', VDate dd),
               (''coursework'', VModel [
                  (''id'', VUuid (fst (uuid4 (snd (uuid4 w))))),
                  (''title'', VStr ''CC''),
                  (''semester'', VStr ''Fall 2025''),
                  (''professor'', VModel [
                     (''uni'', VStr ''df123''),
                     (''first_name'', VStr ''Donald''),
                     (''last_name'', VStr ''Ferguson''),
                     (''email'', VStr e),
                     (''addresses'', VList [])]),
                  (''people'', VList [])]),
               (''created_at'', VDatetime (fst (utcnow w)))]))"
proof (intro conjI impI)
  assume h: "cls \<in> {AssignmentCreate P, CourseworkCreate P} \<and> map_of kvs ''id'' = None
      \<and> fst (model_validate c cls (JObj ((''id'', j) # kvs)) w0) = Inr a0"
  then have "\<exists>rest. cls = (''id'', TUuid, DefaultFactory Factory_uuid4) # rest
      \<and> ''id'' \<notin> fst ` set rest"
    by (auto simp: AssignmentCreate_eq CourseworkCreate_eq AssignmentBase_def CourseworkBase_def)
  then obtain rest where "cls = (''id'', TUuid, DefaultFactory Factory_uuid4) # rest"
    and "''id'' \<notin> fst ` set rest" by blast
  moreover from h have "fst (model_validate c cls (JObj ((''id'', j) # kvs)) w0) = Inr a0"
    and "map_of kvs ''id'' = None" by blast+
  ultimately show "\<exists>a. fst (model_validate c cls (JObj kvs) w) = Inr a
                \<and> field_of a ''id'' = Some (VUuid (fst (uuid4 w)))"
    by (rule id_default_generated)
next
  assume h: "cls \<in> {AssignmentCreate P, CourseworkCreate P} \<and> map_of kvs ''id'' = Some (JStr s)
      \<and> uuid_of_str c s = Some u \<and> fst (model_validate c cls (JObj kvs) w) = Inr a"
  then have m: "map_of cls ''id'' = Some (TUuid, DefaultFactory Factory_uuid4)"
    by (auto simp: AssignmentCreate_eq CourseworkCreate_eq AssignmentBase_def CourseworkBase_def)
  from h have ok: "fst (model_validate c cls (JObj kvs) w) = Inr a"
    and given: "map_of kvs ''id'' = Some (JStr s)"
    and parsed: "uuid_of_str c s = Some u" by blast+
  show "field_of a ''id'' = Some (VUuid u)"
    by (rule id_supplied_kept[OF m ok given parsed])
next
  assume h: "cls \<in> {AssignmentCreate P, CourseworkCreate P} \<and> map_of kvs ''id'' = Some (JStr s)
      \<and> uuid_of_str c s = Some u
      \<and> fst (model_validate c cls (JObj (filter (\<lambda>kv. fst kv \<noteq> ''id'') kvs)) w3) = Inr a3"
  then have "\<exists>rest. cls = (''id'', TUuid, DefaultFactory Factory_uuid4) # rest
      \<and> ''id'' \<notin> fst ` set rest"
    by (auto simp: AssignmentCreate_eq CourseworkCreate_eq AssignmentBase_def CourseworkBase_def)
  then obtain rest where "cls = (''id'', TUuid, DefaultFactory Factory_uuid4) # rest"
    and "''id'' \<notin> fst ` set rest" by blast
  moreover from h have "map_of kvs ''id'' = Some (JStr s)" and "uuid_of_str c s = Some u"
    and "fst (model_validate c cls (JObj (filter (\<lambda>kv. fst kv \<noteq> ''id'') kvs)) w3) = Inr a3"
    by blast+
  ultimately show "\<exists>b. fst (model_validate c cls (JObj kvs) w) = Inr b
                \<and> field_of b ''id'' = Some (VUuid u)"
    by (rule id_supplied_accepted)
next
  assume "date_of_str c ''2025-12-31'' = Some dd \<and> email_of_str c ''d@f.edu'' = Some e"
  then show "fst (model_validate c (AssignmentCreate PersonBase_spec) (JObj example_assignment) w)
           = Inr (VModel [
               (''id'', VUuid (fst (uuid4 w))),
               (''title'', VStr ''HW1''),
               (''description'', VStr ''...''),
               (''due_date'', VDate dd),
               (''coursework'', VModel [
                  (''id'', VUuid (fst (uuid4 (snd (uuid4 w))))),
                  (''title'', VStr ''CC''),
                  (''semester'', VStr ''Fall 2025''),
                  (''professor'', VModel [
                     (''uni'', VStr ''df123''),
                     (''first_name'', VStr ''Donald''),
                     (''last_name'', VStr ''Ferguson''),
                     (''email'', VStr e),
                     (''addresses'', VList [])]),
                  (''people'', VList [])]),
               (''created_at'', VDatetime (fst (utcnow w)))])"
    by (intro example_assignment_validates) simp_all
qed

text \<open>The example input, as it is and with an \<open>id\<close> added.\<close>

theorem create_id_witness:
  "map_of example_assignment ''id'' = None \<and>
   fst (model_validate example_codec (AssignmentCreate PersonBase_spec)
          (JObj ((''id'', JStr ''99999999-9999-4999-8999-999999999999'') # example_assignment)) example_world)
     = Inr (VModel [
       (''id'', VUuid 0x99999999999949998999999999999999),
       (''title'', VStr ''HW1''),
       (''description'', VStr ''...''),
       (''due_date'', VDate (Date 2025 12 31)),
       (''coursework'', VModel [
          (''id'', VUuid 0x550e8400e29b41d4a716446655440000),
          (''title'', VStr ''CC''),
          (''semester'', VStr ''Fall 2025''),
          (''professor'', VModel [
             (''uni'', VStr ''df123''),
             (''first_name'', VStr ''Donald''),
             (''last_name'', VStr ''Ferguson''),
             (''email'', VStr ''d@f.edu''),
             (''addresses'', VList [])]),
          (''people'', VList [])]),
       (''created_at'', VDatetime (Datetime 2025 1 15 10 20 30 0 None))]) \<and>
   (\<exists>a. fst (model_validate example_codec (AssignmentCreate PersonBase_spec)
             (JObj example_assignment) example_world) = Inr a
        \<and> field_of a ''id'' = Some (VUuid 0x550e8400e29b41d4a716446655440000)) \<and>
   uuid_of_str example_codec ''99999999-9999-4999-8999-999999999999'' = Some 0x99999999999949998999999999999999 \<and>
   field_of (VModel [
       (''id'', VUuid 0x99999999999949998999999999999999),
       (''title'', VStr ''HW1''),
       (''description'', VStr ''...''),
       (''due_date'', VDate (Date 2025 12 31)),
       (''coursework'', VModel [
          (''id'', VUuid 0x550e8400e29b41d4a716446655440000),
          (''title'', VStr ''CC''),
          (''semester'', VStr ''Fall 2025''),
          (''professor'', VModel [
             (''uni'', VStr ''df123''),
             (''first_name'', VStr ''Donald''),
             (''last_name'', VStr ''Ferguson''),
             (''email'', VStr ''d@f.edu''),
             (''addresses'', VList [])]),
          (''people'', VList [])]),
       (''created_at'', VDatetime (Datetime 2025 1 15 10 20 30 0 None))]) ''id''
     = Some (VUuid 0x99999999999949998999999999999999) \<and>
   filter (\<lambda>kv. fst kv \<noteq> ''id'') ((''id'', JStr ''99999999-9999-4999-8999-999999999999'') # example_assignment)
     = example_assignment \<and>
   (\<exists>b. fst (model_validate example_codec (AssignmentCreate PersonBase_spec)
             (JObj ((''id'', JStr ''99999999-9999-4999-8999-999999999999'') # example_assignment))
             (snd (uuid4 example_world))) = Inr b
        \<and> field_of b ''id'' = Some (VUuid 0x99999999999949998999999999999999)) \<and>
   date_of_str example_codec ''2025-12-31'' = Some (Date 2025 12 31) \<and>
   email_of_str example_codec ''d@f.edu'' = Some ''d@f.edu'' \<and>
   fst (model_validate example_codec (AssignmentCreate PersonBase_spec)
          (JObj example_assignment) example_world)
     = Inr (VModel [
       (''id'', VUuid 0x550e8400e29b41d4a716446655440000),
       (''title'', VStr ''HW1''),
       (''description'', VStr ''...''),
       (''due_date'', VDate (Date 2025 12 31)),
       (''coursework'', VModel [
          (''id'', VUuid 0x99999999999949998999999999999999),
          (''title'', VStr ''CC''),
          (''semester'', VStr ''Fall 2025''),
          (''professor'', VModel [
             (''uni'', VStr ''df123''),
             (''first_name'', VStr ''Donald''),
             (''last_name'', VStr ''Ferguson''),
             (''email'', VStr ''d@f.edu''),
             (''addresses'', VList [])]),
          (''people'', VList [])]),
       (''created_at'', VDatetime (Datetime 2025 1 15 10 20 30 0 None))])"
proof -
  have absent: "map_of example_assignment ''id'' = None"
    by (simp add: example_assignment_def)
  have ev: "fst (model_validate example_codec (AssignmentCreate PersonBase_spec)
          (JObj ((''id'', JStr ''99999999-9999-4999-8999-999999999999'') # example_assignment)) example_world)
     = Inr (VModel [
       (''id'', VUuid 0x99999999999949998999999999999999),
       (''title'', VStr ''HW1''),
       (''description'', VStr ''...''),
       (''due_date'', VDate (Date 2025 12 31)),
       (''coursework'', VModel [
          (''id'', VUuid 0x550e8400e29b41d4a716446655440000),
          (''title'', VStr ''CC''),
          (''semester'', VStr ''Fall 2025''),
          (''professor'', VModel [
             (''uni'', VStr ''df123''),
             (''first_name'', VStr ''Donald''),
             (''last_name'', VStr ''Ferguson''),
             (''email'', VStr ''d@f.edu''),
             (''addresses'', VList [])]),
          (''people'', VList [])]),
       (''created_at'', VDatetime (Datetime 2025 1 15 10 20 30 0 None))])"
    by (simp add: model_validate_def AssignmentCreate_eq AssignmentBase_def CourseworkBase_def
        PersonBase_spec_def example_assignment_def example_coursework_def example_professor_def
        example_codec_def example_world_def uuid4_def utcnow_def)
  have parsed: "uuid_of_str example_codec ''99999999-9999-4999-8999-999999999999'' = Some 0x99999999999949998999999999999999"
    by (simp add: example_codec_def)
  have dd: "date_of_str example_codec ''2025-12-31'' = Some (Date 2025 12 31)"
    and em: "email_of_str example_codec ''d@f.edu'' = Some ''d@f.edu''"
    by (simp_all add: example_codec_def)
  have w: "fst (uuid4 example_world) = 0x550e8400e29b41d4a716446655440000"
    "fst (uuid4 (snd (uuid4 example_world))) = 0x99999999999949998999999999999999"
    "fst (utcnow example_world) = Datetime 2025 1 15 10 20 30 0 None"
    by (simp_all add: uuid4_def utcnow_def example_world_def)
  note thm1 = create_id[where cls = "AssignmentCreate PersonBase_spec" and P = PersonBase_spec
      and kvs = example_assignment and c = example_codec and w = example_world
      and ?w0.0 = example_world and j = "JStr ''99999999-9999-4999-8999-999999999999''" and dd = "Date 2025 12 31" and e = "''d@f.edu''"
      and ?a0.0 = "VModel [
       (''id'', VUuid 0x99999999999949998999999999999999),
       (''title'', VStr ''HW1''),
       (''description'', VStr ''...''),
       (''due_date'', VDate (Date 2025 12 31)),
       (''coursework'', VModel [
          (''id'', VUuid 0x550e8400e29b41d4a716446655440000),
          (''title'', VStr ''CC''),
          (''semester'', VStr ''Fall 2025''),
          (''professor'', VModel [
             (''uni'', VStr ''df123''),
             (''first_name'', VStr ''Donald''),
             (''last_name'', VStr ''Ferguson''),
             (''email'', VStr ''d@f.edu''),
             (''addresses'', VList [])]),
          (''people'', VList [])]),
       (''created_at'', VDatetime (Datetime 2025 1 15 10 20 30 0 None))]"]
  note thm2 = create_id[where cls = "AssignmentCreate PersonBase_spec" and P = PersonBase_spec
      and kvs = "(''id'', JStr ''99999999-9999-4999-8999-999999999999'') # example_assignment" and c = example_codec
      and w = example_world and ?w3.0 = example_world and s = "''99999999-9999-4999-8999-999999999999''" and u = "0x99999999999949998999999999999999"
      and a = "VModel [
       (''id'', VUuid 0x99999999999949998999999999999999),
       (''title'', VStr ''HW1''),
       (''description'', VStr ''...''),
       (''due_date'', VDate (Date 2025 12 31)),
       (''coursework'', VModel [
          (''id'', VUuid 0x550e8400e29b41d4a716446655440000),
          (''title'', VStr ''CC''),
          (''semester'', VStr ''Fall 2025''),
          (''professor'', VModel [
             (''uni'', VStr ''df123''),
             (''first_name'', VStr ''Donald''),
             (''last_name'', VStr ''Ferguson''),
             (''email'', VStr ''d@f.edu''),
             (''addresses'', VList [])]),
          (''people'', VList [])]),
       (''created_at'', VDatetime (Datetime 2025 1 15 10 20 30 0 None))]"]
  have p1: "\<exists>a. fst (model_validate example_codec (AssignmentCreate PersonBase_spec)
             (JObj example_assignment) example_world) = Inr a
        \<and> field_of a ''id'' = Some (VUuid 0x550e8400e29b41d4a716446655440000)"
    using thm1[THEN conjunct1] absent ev w(1) by simp
  have p2: "field_of (VModel [
       (''id'', VUuid 0x99999999999949998999999999999999),
       (''title'', VStr ''HW1''),
       (''description'', VStr ''...''),
       (''due_date'', VDate (Date 2025 12 31)),
       (''coursework'', VModel [
          (''id'', VUuid 0x550e8400e29b41d4a716446655440000),
          (''title'', VStr ''CC''),
          (''semester'', VStr ''Fall 2025''),
          (''professor'', VModel [
             (''uni'', VStr ''df123''),
             (''first_name'', VStr ''Donald''),
             (''last_name'', VStr ''Ferguson''),
             (''email'', VStr ''d@f.edu''),
             (''addresses'', VList [])]),
          (''people'', VList [])]),
       (''created_at'', VDatetime (Datetime 2025 1 15 10 20 30 0 None))]) ''id''
     = Some (VUuid 0x99999999999949998999999999999999)"
    by simp
  have p3: "fst (model_validate example_codec (AssignmentCreate PersonBase_spec)
          (JObj example_assignment) example_world)
     = Inr (VModel [
       (''id'', VUuid 0x550e8400e29b41d4a716446655440000),
       (''title'', VStr ''HW1''),
       (''description'', VStr ''...''),
       (''due_date'', VDate (Date 2025 12 31)),
       (''coursework'', VModel [
          (''id'', VUuid 0x99999999999949998999999999999999),
          (''title'', VStr ''CC''),
          (''semester'', VStr ''Fall 2025''),
          (''professor'', VModel [
             (''uni'', VStr ''df123''),
             (''first_name'', VStr ''Donald''),
             (''last_name'', VStr ''Ferguson''),
             (''email'', VStr ''d@f.edu''),
             (''addresses'', VList [])]),
          (''people'', VList [])]),
       (''created_at'', VDatetime (Datetime 2025 1 15 10 20 30 0 None))])"
    using thm1[THEN conjunct2, THEN conjunct2, THEN conjunct2] dd em w by simp
  have flt: "filter (\<lambda>kv. fst kv \<noteq> ''id'') ((''id'', JStr ''99999999-9999-4999-8999-999999999999'') # example_assignment)
     = example_assignment"
    by (simp add: example_assignment_def)
  note thm3 = create_id[where cls = "AssignmentCreate PersonBase_spec" and P = PersonBase_spec
      and kvs = "(''id'', JStr ''99999999-9999-4999-8999-999999999999'') # example_assignment" and c = example_codec
      and w = "snd (uuid4 example_world)" and ?w3.0 = example_world
      and s = "''99999999-9999-4999-8999-999999999999''" and u = "0x99999999999949998999999999999999"
      and ?a3.0 = "VModel [
       (''id'', VUuid 0x550e8400e29b41d4a716446655440000),
       (''title'', VStr ''HW1''),
       (''description'', VStr ''...''),
       (''due_date'', VDate (Date 2025 12 31)),
       (''coursework'', VModel [
          (''id'', VUuid 0x99999999999949998999999999999999),
          (''title'', VStr ''CC''),
          (''semester'', VStr ''Fall 2025''),
          (''professor'', VModel [
             (''uni'', VStr ''df123''),
             (''first_name'', VStr ''Donald''),
             (''last_name'', VStr ''Ferguson''),
             (''email'', VStr ''d@f.edu''),
             (''addresses'', VList [])]),
          (''people'', VList [])]),
       (''created_at'', VDatetime (Datetime 2025 1 15 10 20 30 0 None))]"]
  have p4: "\<exists>b. fst (model_validate example_codec (AssignmentCreate PersonBase_spec)
             (JObj ((''id'', JStr ''99999999-9999-4999-8999-999999999999'') # example_assignment))
             (snd (uuid4 example_world))) = Inr b
        \<and> field_of b ''id'' = Some (VUuid 0x99999999999949998999999999999999)"
    using thm3[THEN conjunct2, THEN conjunct2, THEN conjunct1] parsed p3
    unfolding flt by simp
  show ?thesis
    using absent ev p1 parsed p2 flt p4 dd em p3 thm2 by blast
qed

subsection \<open>Round trip of a created Assignment\<close>

text \<open>
  Claim C5. Let an input validate as \<open>AssignmentCreate\<close> to the object \<open>a\<close>. Then \<open>a\<close> has an
  \<open>id\<close> that is a UUID and a \<open>created_at\<close> that is a timestamp, whether or not the input
  supplied them, and serializing \<open>a\<close> and validating the result again yields \<open>a\<close> itself,
  in any world and without calling a factory. This holds when the library reads the UUIDs,
  dates and timestamps of \<open>a\<close> back from their written form and accepts a normalised e-mail
  address as it is, and when \<open>PersonBase\<close> is well-formed.
\<close>

theorem create_roundtrip:
  assumes "fst (model_validate c (AssignmentCreate P) obj w) = Inr a"
    and "wf_type (TModel P)"
    and "email_idempotent c"
    and "scalars_roundtrip c a"
  shows "model_validate c (AssignmentCreate P) (dump c a) w' = (Inr a, w')
       \<and> (\<exists>u ts. field_of a ''id'' = Some (VUuid u)
                \<and> field_of a ''created_at'' = Some (VDatetime ts))"
proof
  obtain w1 where ok: "validate c (TModel (AssignmentBase P)) obj w = (Inr a, w1)"
    using assms(1) unfolding model_validate_def AssignmentCreate_eq
    by (cases "validate c (TModel (AssignmentBase P)) obj w") simp
  from validate_roundtrip(1)[OF wf_AssignmentBase[OF assms(2)] assms(3) ok assms(4)]
  show "model_validate c (AssignmentCreate P) (dump c a) w' = (Inr a, w')"
    unfolding model_validate_def AssignmentCreate_eq .
next
  from model_validate_is_object[OF assms(1)] obtain kvs where obj: "obj = JObj kvs" ..
  from model_validate_Inr[OF assms(1)[unfolded obj]]
  have e: "fst (fst (validate_fields c (AssignmentCreate P) kvs w)) = []"
    and a: "a = VModel (snd (fst (validate_fields c (AssignmentCreate P) kvs w)))" by simp_all
  have mid: "map_of (AssignmentCreate P) ''id'' = Some (TUuid, DefaultFactory Factory_uuid4)"
    and mct: "map_of (AssignmentCreate P) ''created_at''
        = Some (TDatetime, DefaultFactory Factory_utcnow)"
    by (simp_all add: AssignmentCreate_eq AssignmentBase_def)
  have "\<exists>u. field_of a ''id'' = Some (VUuid u)"
    using field_result[OF mid e] validate_TUuid_value[of c]
    by (cases "map_of kvs ''id''")
      (auto simp: a call_factory_uuid4 simp del: call_factory.simps)
  moreover have "\<exists>ts. field_of a ''created_at'' = Some (VDatetime ts)"
    using field_result[OF mct e] validate_TDatetime_value[of c]
    by (cases "map_of kvs ''created_at''")
      (auto simp: a call_factory_utcnow simp del: call_factory.simps)
  ultimately show "\<exists>u ts. field_of a ''id'' = Some (VUuid u)
                \<and> field_of a ''created_at'' = Some (VDatetime ts)"
    by blast
qed

text \<open>The object made from the example input.\<close>

theorem create_roundtrip_witness:
  "fst (model_validate example_codec (AssignmentCreate PersonBase_spec)
          (JObj example_assignment) example_world)
     = Inr (VModel [
       (''id'', VUuid 0x550e8400e29b41d4a716446655440000),
       (''title'', VStr ''HW1''),
       (''description'', VStr ''...''),
       (''due_date'', VDate (Date 2025 12 31)),
       (''coursework'', VModel [
          (''id'', VUuid 0x99999999999949998999999999999999),
          (''title'', VStr ''CC''),
          (''semester'', VStr ''Fall 2025''),
          (''professor'', VModel [
             (''uni'', VStr ''df123''),
             (''first_name'', VStr ''Donald''),
             (''last_name'', VStr ''Ferguson''),
             (''email'', VStr ''d@f.edu''),
             (''addresses'', VList [])]),
          (''people'', VList [])]),
       (''created_at'', VDatetime (Datetime 2025 1 15 10 20 30 0 None))]) \<and>
   wf_type (TModel PersonBase_spec) \<and>
   email_idempotent example_codec \<and>
   scalars_roundtrip example_codec (VModel [
       (''id'', VUuid 0x550e8400e29b41d4a716446655440000),
       (''title'', VStr ''HW1''),
       (''description'', VStr ''...''),
       (''due_date'', VDate (Date 2025 12 31)),
       (''coursework'', VModel [
          (''id'', VUuid 0x99999999999949998999999999999999),
          (''title'', VStr ''CC''),
          (''semester'', VStr ''Fall 2025''),
          (''professor'', VModel [
             (''uni'', VStr ''df123''),
             (''first_name'', VStr ''Donald''),
             (''last_name'', VStr ''Ferguson''),
             (''email'', VStr ''d@f.edu''),
             (''addresses'', VList [])]),
          (''people'', VList [])]),
       (''created_at'', VDatetime (Datetime 2025 1 15 10 20 30 0 None))]) \<and>
   model_validate example_codec (AssignmentCreate PersonBase_spec)
       (dump example_codec (VModel [
       (''id'', VUuid 0x550e8400e29b41d4a716446655440000),
       (''title'', VStr ''HW1''),
       (''description'', VStr ''...''),
       (''due_date'', VDate (Date 2025 12 31)),
       (''coursework'', VModel [
          (''id'', VUuid 0x99999999999949998999999999999999),
          (''title'', VStr ''CC''),
          (''semester'', VStr ''Fall 2025''),
          (''professor'', VModel [
             (''uni'', VStr ''df123''),
             (''first_name'', VStr ''Donald''),
             (''last_name'', VStr ''Ferguson''),
             (''email'', VStr ''d@f.edu''),
             (''addresses'', VList [])]),
          (''people'', VList [])]),
       (''created_at'', VDatetime (Datetime 2025 1 15 10 20 30 0 None))]))
       (snd (uuid4 example_world))
     = (Inr (VModel [
       (''id'', VUuid 0x550e8400e29b41d4a716446655440000),
       (''title'', VStr ''HW1''),
       (''description'', VStr ''...''),
       (''due_date'', VDate (Date 2025 12 31)),
       (''coursework'', VModel [
          (''id'', VUuid 0x99999999999949998999999999999999),
          (''title'', VStr ''CC''),
          (''semester'', VStr ''Fall 2025''),
          (''professor'', VModel [
             (''uni'', VStr ''df123''),
             (''first_name'', VStr ''Donald''),
             (''last_name'', VStr ''Ferguson''),
             (''email'', VStr ''d@f.edu''),
             (''addresses'', VList [])]),
          (''people'', VList [])]),
       (''created_at'', VDatetime (Datetime 2025 1 15 10 20 30 0 None))]),
        snd (uuid4 example_world))"
proof -
  have dd: "date_of_str example_codec ''2025-12-31'' = Some (Date 2025 12 31)"
    and em: "email_of_str example_codec ''d@f.edu'' = Some ''d@f.edu''"
    by (simp_all add: example_codec_def)
  have w: "fst (uuid4 example_world) = 0x550e8400e29b41d4a716446655440000"
    "fst (uuid4 (snd (uuid4 example_world))) = 0x99999999999949998999999999999999"
    "fst (utcnow example_world) = Datetime 2025 1 15 10 20 30 0 None"
    by (simp_all add: uuid4_def utcnow_def example_world_def)
  have ev: "fst (model_validate example_codec (AssignmentCreate PersonBase_spec)
          (JObj example_assignment) example_world)
     = Inr (VModel [
       (''id'', VUuid 0x550e8400e29b41d4a716446655440000),
       (''title'', VStr ''HW1''),
       (''description'', VStr ''...''),
       (''due_date'', VDate (Date 2025 12 31)),
       (''coursework'', VModel [
          (''id'', VUuid 0x99999999999949998999999999999999),
          (''title'', VStr ''CC''),
          (''semester'', VStr ''Fall 2025''),
          (''professor'', VModel [
             (''uni'', VStr ''df123''),
             (''first_name'', VStr ''Donald''),
             (''last_name'', VStr ''Ferguson''),
             (''email'', VStr ''d@f.edu''),
             (''addresses'', VList [])]),
          (''people'', VList [])]),
       (''created_at'', VDatetime (Datetime 2025 1 15 10 20 30 0 None))])"
    unfolding example_assignment_validates[OF dd em] w ..
  have wf: "wf_type (TModel PersonBase_spec)"
    by (simp add: PersonBase_spec_def Address_spec_def)
  have idem: "email_idempotent example_codec"
    by (simp add: email_idempotent_def example_codec_def)
  have sr: "scalars_roundtrip example_codec (VModel [
       (''id'', VUuid 0x550e8400e29b41d4a716446655440000),
       (''title'', VStr ''HW1''),
       (''description'', VStr ''...''),
       (''due_date'', VDate (Date 2025 12 31)),
       (''coursework'', VModel [
          (''id'', VUuid 0x99999999999949998999999999999999),
          (''title'', VStr ''CC''),
          (''semester'', VStr ''Fall 2025''),
          (''professor'', VModel [
             (''uni'', VStr ''df123''),
             (''first_name'', VStr ''Donald''),
             (''last_name'', VStr ''Ferguson''),
             (''email'', VStr ''d@f.edu''),
             (''addresses'', VList [])]),
          (''people'', VList [])]),
       (''created_at'', VDatetime (Datetime 2025 1 15 10 20 30 0 None))])"
    by (simp add: example_codec_def)
  from create_roundtrip[OF ev wf idem sr, of "snd (uuid4 example_world)"] ev wf idem sr
  show ?thesis by blast
qed

subsection \<open>Errors of a nested professor\<close>

text \<open>
  Claim C6. Let \<open>PersonBase\<close> declare \<open>email\<close> as an \<^verbatim>\<open>EmailStr\<close> field, and let the input of
  any Assignment variant carry a \<open>coursework\<close> object whose \<open>professor\<close> object has a malformed
  \<open>email\<close>. Then validation of the Assignment fails, and one of its errors is located at
  \<open>coursework.professor.email\<close>.
\<close>

theorem nested_email_error:
  assumes "cls \<in> {AssignmentBase P, AssignmentCreate P, AssignmentRead P, AssignmentUpdate P}"
    and "map_of P ''email'' = Some (TEmailStr, d)"
    and "map_of kvs ''coursework'' = Some (JObj ckvs)"
    and "map_of ckvs ''professor'' = Some (JObj pkvs)"
    and "map_of pkvs ''email'' = Some v"
    and "malformed_email c v"
  shows "\<exists>es e. fst (model_validate c cls (JObj kvs) w) = Inl es
           \<and> ([Key ''coursework'', Key ''professor'', Key ''email''], e) \<in> set es"
proof -
  from malformed_email_error[OF assms(6)]
  obtain e where e: "([], e) \<in> set (errors_of (fst (validate c TEmailStr v w)))" ..
  have "([Key ''email''], e) \<in> set (fst (fst (validate_fields c P pkvs w)))"
    by (rule field_error_propagates[OF assms(2) assms(5) e])
  then have prof: "([Key ''email''], e) \<in> set (errors_of (fst (validate c (TModel P) (JObj pkvs) w)))"
    unfolding validate_TModel_errors by simp
  have "map_of (CourseworkBase P) ''professor'' = Some (TModel P, Required)"
    by (simp add: CourseworkBase_def)
  from field_error_propagates[OF this assms(4) prof]
  have "([Key ''professor'', Key ''email''], e) \<in> set (fst (fst (validate_fields c (CourseworkBase P) ckvs w)))" .
  then have cw: "([Key ''professor'', Key ''email''], e)
      \<in> set (errors_of (fst (validate c (TModel (CourseworkBase P)) (JObj ckvs) w)))"
    unfolding validate_TModel_errors by simp
  then have cwo: "([Key ''professor'', Key ''email''], e)
      \<in> set (errors_of (fst (validate c (TOptional (TModel (CourseworkBase P))) (JObj ckvs) w)))"
    by (simp only: validate_TOptional_JObj)
  from assms(1) have "(\<exists>d'. map_of cls ''coursework'' = Some (TModel (CourseworkBase P), d'))
      \<or> (\<exists>d'. map_of cls ''coursework'' = Some (TOptional (TModel (CourseworkBase P)), d'))"
    by (auto simp: AssignmentCreate_eq AssignmentRead_eq AssignmentBase_def AssignmentUpdate_def)
  then have "([Key ''coursework'', Key ''professor'', Key ''email''], e)
      \<in> set (fst (fst (validate_fields c cls kvs w)))"
    using field_error_propagates[OF _ assms(3) cw] field_error_propagates[OF _ assms(3) cwo]
    by blast
  from model_validate_fails[OF this] show ?thesis by blast
qed

text \<open>An Assignment whose professor's address is not one the example codec accepts.\<close>

theorem nested_email_error_witness:
  "map_of PersonBase_spec ''email'' = Some (TEmailStr, Required) \<and>
   malformed_email example_codec (JStr ''d at f.edu'') \<and>
   (\<exists>es e. fst (model_validate example_codec (AssignmentCreate PersonBase_spec)
       (JObj [(''title'', JStr ''HW1''),
              (''coursework'', JObj [(''title'', JStr ''CC''),
                 (''professor'', JObj [(''uni'', JStr ''df123''),
                                       (''email'', JStr ''d at f.edu'')])])])
       example_world) = Inl es
     \<and> ([Key ''coursework'', Key ''professor'', Key ''email''], e) \<in> set es)"
proof -
  have a: "map_of PersonBase_spec ''email'' = Some (TEmailStr, Required)"
    by (simp add: PersonBase_spec_def)
  have b: "malformed_email example_codec (JStr ''d at f.edu'')"
    by (simp add: malformed_email_def example_codec_def)
  show ?thesis
    using a b nested_email_error[of "AssignmentCreate PersonBase_spec" PersonBase_spec Required
        "[(''title'', JStr ''HW1''),
              (''coursework'', JObj [(''title'', JStr ''CC''),
                 (''professor'', JObj [(''uni'', JStr ''df123''),
                                       (''email'', JStr ''d at f.edu'')])])]"
        "[(''title'', JStr ''CC''),
                 (''professor'', JObj [(''uni'', JStr ''df123''),
                                       (''email'', JStr ''d at f.edu'')])]"
        "[(''uni'', JStr ''df123''), (''email'', JStr ''d at f.edu'')]"
        "JStr ''d at f.edu''" example_codec example_world]
    by simp
qed

subsection \<open>Validation and the environment\<close>

text \<open>
  Claim C7, as amended. Validating an input against any annotation, a class of either file
  included, is a function of the input and of the environment. Whether it fails, and with
  which errors, does not depend on the environment. It changes the environment only by
  calling \<^verbatim>\<open>uuid4\<close> and \<^verbatim>\<open>datetime.utcnow\<close>; and when it calls neither, because the input
  supplies every field that has a factory, it returns the same result in every environment.
  When it succeeds in one environment it succeeds in every other, and the two objects are
  alike: equal up to the UUIDs and timestamps in them. Two objects constructed from the same
  input agree on every field that the input supplies and whose validation calls no factory,
  such as \<open>title\<close>, \<open>description\<close> and \<open>due_date\<close>, and a field that the input omits and
  that has a static default holds that default.
\<close>

theorem validate_environment:
  "(fst (validate c t v w1) = Inl es \<longrightarrow> fst (validate c t v w2) = Inl es)
   \<and> (snd (validate c t v w1) = w1 \<longrightarrow> validate c t v w2 = (fst (validate c t v w1), w2))
   \<and> later w1 (snd (validate c t v w1))
   \<and> (fst (validate c t v w1) = Inr x1
        \<longrightarrow> (\<exists>x2. fst (validate c t v w2) = Inr x2 \<and> alike x1 x2))
   \<and> (fst (model_validate c cls (JObj kvs) w1) = Inr a1
        \<and> fst (model_validate c cls (JObj kvs) w2) = Inr a2
        \<and> map_of cls n = Some (tn, d) \<and> map_of kvs n = Some vn
        \<and> snd (validate c tn vn w0) = w0
        \<longrightarrow> field_of a1 n = field_of a2 n)
   \<and> (fst (model_validate c cls (JObj kvs) w1) = Inr a1
        \<and> map_of cls n = Some (tn, Default y) \<and> map_of kvs n = None
        \<longrightarrow> field_of a1 n = Some y)"
proof (intro conjI impI)
  assume l: "fst (validate c t v w1) = Inl es"
  then have "es \<noteq> []" by (rule validate_Inl_nonempty)
  moreover have "errors_of (fst (validate c t v w2)) = es"
    using validate_errors_world(1)[of c t v w2 w1] l by simp
  ultimately show "fst (validate c t v w2) = Inl es"
    by (cases "fst (validate c t v w2)") auto
next
  assume "snd (validate c t v w1) = w1"
  then show "validate c t v w2 = (fst (validate c t v w1), w2)"
    by (rule validate_no_draw(1))
next
  show "later w1 (snd (validate c t v w1))"
    by (rule validate_later(1))
next
  assume r: "fst (validate c t v w1) = Inr x1"
  then have "errors_of (fst (validate c t v w2)) = []"
    using validate_errors_world(1)[of c t v w2 w1] by simp
  then obtain x2 where x2: "fst (validate c t v w2) = Inr x2"
    using validate_success_iff[of c t v w2] by blast
  obtain wa where a: "validate c t v w1 = (Inr x1, wa)"
    using r by (cases "validate c t v w1") simp
  obtain wb where b: "validate c t v w2 = (Inr x2, wb)"
    using x2 by (cases "validate c t v w2") simp
  from validate_alike(1)[OF a b] x2
  show "\<exists>x2. fst (validate c t v w2) = Inr x2 \<and> alike x1 x2" by blast
next
  assume h: "fst (model_validate c cls (JObj kvs) w1) = Inr a1
        \<and> fst (model_validate c cls (JObj kvs) w2) = Inr a2
        \<and> map_of cls n = Some (tn, d) \<and> map_of kvs n = Some vn
        \<and> snd (validate c tn vn w0) = w0"
  then have "map_of cls n = Some (tn, d)" and "map_of kvs n = Some vn"
    and "snd (validate c tn vn w0) = w0"
    and "fst (model_validate c cls (JObj kvs) w1) = Inr a1"
    and "fst (model_validate c cls (JObj kvs) w2) = Inr a2" by blast+
  then show "field_of a1 n = field_of a2 n"
    by (rule supplied_field_agrees)
next
  assume h: "fst (model_validate c cls (JObj kvs) w1) = Inr a1
        \<and> map_of cls n = Some (tn, Default y) \<and> map_of kvs n = None"
  then have "map_of cls n = Some (tn, Default y)" and "map_of kvs n = None"
    and "fst (model_validate c cls (JObj kvs) w1) = Inr a1" by blast+
  then show "field_of a1 n = Some y"
    by (rule static_default_agrees)
qed

text \<open>An Assignment without its required fields, a patch that supplies its \<open>id\<close>, and the
  example input validated in two environments.\<close>

theorem validate_environment_witness:
  "fst (validate example_codec (TModel (AssignmentCreate PersonBase_spec))
          (JObj [(''title'', JStr ''HW1'')]) example_world)
     = Inl [([Key ''description''], Missing), ([Key ''due_date''], Missing),
            ([Key ''coursework''], Missing)] \<and>
   fst (validate example_codec (TModel (AssignmentCreate PersonBase_spec))
          (JObj [(''title'', JStr ''HW1'')]) (snd (uuid4 example_world)))
     = Inl [([Key ''description''], Missing), ([Key ''due_date''], Missing),
            ([Key ''coursework''], Missing)] \<and>
   snd (validate example_codec (TModel (AssignmentUpdate PersonBase_spec))
          (JObj [(''id'', JStr ''99999999-9999-4999-8999-999999999999'')]) example_world)
     = example_world \<and>
   validate example_codec (TModel (AssignmentUpdate PersonBase_spec))
       (JObj [(''id'', JStr ''99999999-9999-4999-8999-999999999999'')]) (snd (uuid4 example_world))
     = (fst (validate example_codec (TModel (AssignmentUpdate PersonBase_spec))
               (JObj [(''id'', JStr ''99999999-9999-4999-8999-999999999999'')]) example_world),
        snd (uuid4 example_world)) \<and>
   fst (model_validate example_codec (AssignmentCreate PersonBase_spec)
          (JObj example_assignment) example_world)
     = Inr (VModel [
       (''id'', VUuid 0x550e8400e29b41d4a716446655440000),
       (''title'', VStr ''HW1''),
       (''description'', VStr ''...''),
       (''due_date'', VDate (Date 2025 12 31)),
       (''coursework'', VModel [
          (''id'', VUuid 0x99999999999949998999999999999999),
          (''title'', VStr ''CC''),
          (''semester'', VStr ''Fall 2025''),
          (''professor'', VModel [
             (''uni'', VStr ''df123''),
             (''first_name'', VStr ''Donald''),
             (''last_name'', VStr ''Ferguson''),
             (''email'', VStr ''d@f.edu''),
             (''addresses'', VList [])]),
          (''people'', VList [])]),
       (''created_at'', VDatetime (Datetime 2025 1 15 10 20 30 0 None))]) \<and>
   fst (model_validate example_codec (AssignmentCreate PersonBase_spec)
          (JObj example_assignment) (snd (uuid4 example_world)))
     = Inr (VModel [
       (''id'', VUuid 0x99999999999949998999999999999999),
       (''title'', VStr ''HW1''),
       (''description'', VStr ''...''),
       (''due_date'', VDate (Date 2025 12 31)),
       (''coursework'', VModel [
          (''id'', VUuid 2),
          (''title'', VStr ''CC''),
          (''semester'', VStr ''Fall 2025''),
          (''professor'', VModel [
             (''uni'', VStr ''df123''),
             (''first_name'', VStr ''Donald''),
             (''last_name'', VStr ''Ferguson''),
             (''email'', VStr ''d@f.edu''),
             (''addresses'', VList [])]),
          (''people'', VList [])]),
       (''created_at'', VDatetime (Datetime 2025 1 15 10 20 30 0 None))]) \<and>
   alike (VModel [
       (''id'', VUuid 0x550e8400e29b41d4a716446655440000),
       (''title'', VStr ''HW1''),
       (''description'', VStr ''...''),
       (''due_date'', VDate (Date 2025 12 31)),
       (''coursework'', VModel [
          (''id'', VUuid 0x99999999999949998999999999999999),
          (''title'', VStr ''CC''),
          (''semester'', VStr ''Fall 2025''),
          (''professor'', VModel [
             (''uni'', VStr ''df123''),
             (''first_name'', VStr ''Donald''),
             (''last_name'', VStr ''Ferguson''),
             (''email'', VStr ''d@f.edu''),
             (''addresses'', VList [])]),
          (''people'', VList [])]),
       (''created_at'', VDatetime (Datetime 2025 1 15 10 20 30 0 None))])
     (VModel [
       (''id'', VUuid 0x99999999999949998999999999999999),
       (''title'', VStr ''HW1''),
       (''description'', VStr ''...''),
       (''due_date'', VDate (Date 2025 12 31)),
       (''coursework'', VModel [
          (''id'', VUuid 2),
          (''title'', VStr ''CC''),
          (''semester'', VStr ''Fall 2025''),
          (''professor'', VModel [
             (''uni'', VStr ''df123''),
             (''first_name'', VStr ''Donald''),
             (''last_name'', VStr ''Ferguson''),
             (''email'', VStr ''d@f.edu''),
             (''addresses'', VList [])]),
          (''people'', VList [])]),
       (''created_at'', VDatetime (Datetime 2025 1 15 10 20 30 0 None))]) \<and>
   map_of (AssignmentCreate PersonBase_spec) ''due_date'' = Some (TDate, Required) \<and>
   map_of example_assignment ''due_date'' = Some (JStr ''2025-12-31'') \<and>
   snd (validate example_codec TDate (JStr ''2025-12-31'') example_world) = example_world \<and>
   field_of (VModel [
       (''id'', VUuid 0x550e8400e29b41d4a716446655440000),
       (''title'', VStr ''HW1''),
       (''description'', VStr ''...''),
       (''due_date'', VDate (Date 2025 12 31)),
       (''coursework'', VModel [
          (''id'', VUuid 0x99999999999949998999999999999999),
          (''title'', VStr ''CC''),
          (''semester'', VStr ''Fall 2025''),
          (''professor'', VModel [
             (''uni'', VStr ''df123''),
             (''first_name'', VStr ''Donald''),
             (''last_name'', VStr ''Ferguson''),
             (''email'', VStr ''d@f.edu''),
             (''addresses'', VList [])]),
          (''people'', VList [])]),
       (''created_at'', VDatetime (Datetime 2025 1 15 10 20 30 0 None))]) ''due_date''
     = field_of (VModel [
       (''id'', VUuid 0x99999999999949998999999999999999),
       (''title'', VStr ''HW1''),
       (''description'', VStr ''...''),
       (''due_date'', VDate (Date 2025 12 31)),
       (''coursework'', VModel [
          (''id'', VUuid 2),
          (''title'', VStr ''CC''),
          (''semester'', VStr ''Fall 2025''),
          (''professor'', VModel [
             (''uni'', VStr ''df123''),
             (''first_name'', VStr ''Donald''),
             (''last_name'', VStr ''Ferguson''),
             (''email'', VStr ''d@f.edu''),
             (''addresses'', VList [])]),
          (''people'', VList [])]),
       (''created_at'', VDatetime (Datetime 2025 1 15 10 20 30 0 None))]) ''due_date'' \<and>
   fst (model_validate example_codec (AssignmentUpdate PersonBase_spec)
          (JObj [(''id'', JStr ''99999999-9999-4999-8999-999999999999'')]) example_world)
     = Inr (VModel [(''id'', VUuid 0x99999999999949998999999999999999), (''title'', VNone), (''description'', VNone),
       (''due_date'', VNone), (''coursework'', VNone), (''created_at'', VNone)]) \<and>
   map_of (AssignmentUpdate PersonBase_spec) ''title'' = Some (TOptional TStr, Default VNone) \<and>
   field_of (VModel [(''id'', VUuid 0x99999999999949998999999999999999), (''title'', VNone), (''description'', VNone),
       (''due_date'', VNone), (''coursework'', VNone), (''created_at'', VNone)]) ''title'' = Some VNone"
proof -
  have a: "fst (validate example_codec (TModel (AssignmentCreate PersonBase_spec))
          (JObj [(''title'', JStr ''HW1'')]) example_world)
     = Inl [([Key ''description''], Missing), ([Key ''due_date''], Missing),
            ([Key ''coursework''], Missing)]"
    by (simp add: AssignmentCreate_eq AssignmentBase_def uuid4_def utcnow_def split: prod.splits)
  have b: "snd (validate example_codec (TModel (AssignmentUpdate PersonBase_spec))
          (JObj [(''id'', JStr ''99999999-9999-4999-8999-999999999999'')]) example_world)
     = example_world"
    by (simp add: AssignmentUpdate_def example_codec_def)
  note thm1 = validate_environment[where c = example_codec
      and t = "TModel (AssignmentCreate PersonBase_spec)"
      and v = "JObj [(''title'', JStr ''HW1'')]" and ?w1.0 = example_world
      and ?w2.0 = "snd (uuid4 example_world)"
      and es = "[([Key ''description''], Missing), ([Key ''due_date''], Missing),
            ([Key ''coursework''], Missing)]"]
  note thm2 = validate_environment[where c = example_codec
      and t = "TModel (AssignmentUpdate PersonBase_spec)"
      and v = "JObj [(''id'', JStr ''99999999-9999-4999-8999-999999999999'')]"
      and ?w1.0 = example_world and ?w2.0 = "snd (uuid4 example_world)"]
  have dd: "date_of_str example_codec ''2025-12-31'' = Some (Date 2025 12 31)"
    and em: "email_of_str example_codec ''d@f.edu'' = Some ''d@f.edu''"
    by (simp_all add: example_codec_def)
  have w: "fst (uuid4 example_world) = 0x550e8400e29b41d4a716446655440000"
    "fst (uuid4 (snd (uuid4 example_world))) = 0x99999999999949998999999999999999"
    "fst (uuid4 (snd (uuid4 (snd (uuid4 example_world))))) = 2"
    "fst (utcnow example_world) = Datetime 2025 1 15 10 20 30 0 None"
    "fst (utcnow (snd (uuid4 example_world))) = Datetime 2025 1 15 10 20 30 0 None"
    by (simp_all add: uuid4_def utcnow_def example_world_def)
  have e1: "fst (model_validate example_codec (AssignmentCreate PersonBase_spec)
          (JObj example_assignment) example_world)
     = Inr (VModel [
       (''id'', VUuid 0x550e8400e29b41d4a716446655440000),
       (''title'', VStr ''HW1''),
       (''description'', VStr ''...''),
       (''due_date'', VDate (Date 2025 12 31)),
       (''coursework'', VModel [
          (''id'', VUuid 0x99999999999949998999999999999999),
          (''title'', VStr ''CC''),
          (''semester'', VStr ''Fall 2025''),
          (''professor'', VModel [
             (''uni'', VStr ''df123''),
             (''first_name'', VStr ''Donald''),
             (''last_name'', VStr ''Ferguson''),
             (''email'', VStr ''d@f.edu''),
             (''addresses'', VList [])]),
          (''people'', VList [])]),
       (''created_at'', VDatetime (Datetime 2025 1 15 10 20 30 0 None))])"
    unfolding example_assignment_validates[OF dd em] w ..
  have e2: "fst (model_validate example_codec (AssignmentCreate PersonBase_spec)
          (JObj example_assignment) (snd (uuid4 example_world)))
     = Inr (VModel [
       (''id'', VUuid 0x99999999999949998999999999999999),
       (''title'', VStr ''HW1''),
       (''description'', VStr ''...''),
       (''due_date'', VDate (Date 2025 12 31)),
       (''coursework'', VModel [
          (''id'', VUuid 2),
          (''title'', VStr ''CC''),
          (''semester'', VStr ''Fall 2025''),
          (''professor'', VModel [
             (''uni'', VStr ''df123''),
             (''first_name'', VStr ''Donald''),
             (''last_name'', VStr ''Ferguson''),
             (''email'', VStr ''d@f.edu''),
             (''addresses'', VList [])]),
          (''people'', VList [])]),
       (''created_at'', VDatetime (Datetime 2025 1 15 10 20 30 0 None))])"
    unfolding example_assignment_validates[OF dd em] w ..
  note thm3 = validate_environment[where c = example_codec
      and t = "TModel (AssignmentCreate PersonBase_spec)" and v = "JObj example_assignment"
      and cls = "AssignmentCreate PersonBase_spec" and kvs = example_assignment
      and ?w1.0 = example_world and ?w2.0 = "snd (uuid4 example_world)" and ?w0.0 = example_world
      and n = "''due_date''" and tn = TDate and d = Required and vn = "JStr ''2025-12-31''"
      and ?x1.0 = "VModel [
       (''id'', VUuid 0x550e8400e29b41d4a716446655440000),
       (''title'', VStr ''HW1''),
       (''description'', VStr ''...''),
       (''due_date'', VDate (Date 2025 12 31)),
       (''coursework'', VModel [
          (''id'', VUuid 0x99999999999949998999999999999999),
          (''title'', VStr ''CC''),
          (''semester'', VStr ''Fall 2025''),
          (''professor'', VModel [
             (''uni'', VStr ''df123''),
             (''first_name'', VStr ''Donald''),
             (''last_name'', VStr ''Ferguson''),
             (''email'', VStr ''d@f.edu''),
             (''addresses'', VList [])]),
          (''people'', VList [])]),
       (''created_at'', VDatetime (Datetime 2025 1 15 10 20 30 0 None))]"
      and ?a1.0 = "VModel [
       (''id'', VUuid 0x550e8400e29b41d4a716446655440000),
       (''title'', VStr ''HW1''),
       (''description'', VStr ''...''),
       (''due_date'', VDate (Date 2025 12 31)),
       (''coursework'', VModel [
          (''id'', VUuid 0x99999999999949998999999999999999),
          (''title'', VStr ''CC''),
          (''semester'', VStr ''Fall 2025''),
          (''professor'', VModel [
             (''uni'', VStr ''df123''),
             (''first_name'', VStr ''Donald''),
             (''last_name'', VStr ''Ferguson''),
             (''email'', VStr ''d@f.edu''),
             (''addresses'', VList [])]),
          (''people'', VList [])]),
       (''created_at'', VDatetime (Datetime 2025 1 15 10 20 30 0 None))]"
      and ?a2.0 = "VModel [
       (''id'', VUuid 0x99999999999949998999999999999999),
       (''title'', VStr ''HW1''),
       (''description'', VStr ''...''),
       (''due_date'', VDate (Date 2025 12 31)),
       (''coursework'', VModel [
          (''id'', VUuid 2),
          (''title'', VStr ''CC''),
          (''semester'', VStr ''Fall 2025''),
          (''professor'', VModel [
             (''uni'', VStr ''df123''),
             (''first_name'', VStr ''Donald''),
             (''last_name'', VStr ''Ferguson''),
             (''email'', VStr ''d@f.edu''),
             (''addresses'', VList [])]),
          (''people'', VList [])]),
       (''created_at'', VDatetime (Datetime 2025 1 15 10 20 30 0 None))]"]
  have al: "alike (VModel [
       (''id'', VUuid 0x550e8400e29b41d4a716446655440000),
       (''title'', VStr ''HW1''),
       (''description'', VStr ''...''),
       (''due_date'', VDate (Date 2025 12 31)),
       (''coursework'', VModel [
          (''id'', VUuid 0x99999999999949998999999999999999),
          (''title'', VStr ''CC''),
          (''semester'', VStr ''Fall 2025''),
          (''professor'', VModel [
             (''uni'', VStr ''df123''),
             (''first_name'', VStr ''Donald''),
             (''last_name'', VStr ''Ferguson''),
             (''email'', VStr ''d@f.edu''),
             (''addresses'', VList [])]),
          (''people'', VList [])]),
       (''created_at'', VDatetime (Datetime 2025 1 15 10 20 30 0 None))])
     (VModel [
       (''id'', VUuid 0x99999999999949998999999999999999),
       (''title'', VStr ''HW1''),
       (''description'', VStr ''...''),
       (''due_date'', VDate (Date 2025 12 31)),
       (''coursework'', VModel [
          (''id'', VUuid 2),
          (''title'', VStr ''CC''),
          (''semester'', VStr ''Fall 2025''),
          (''professor'', VModel [
             (''uni'', VStr ''df123''),
             (''first_name'', VStr ''Donald''),
             (''last_name'', VStr ''Ferguson''),
             (''email'', VStr ''d@f.edu''),
             (''addresses'', VList [])]),
          (''people'', VList [])]),
       (''created_at'', VDatetime (Datetime 2025 1 15 10 20 30 0 None))])"
    using thm3[THEN conjunct2, THEN conjunct2, THEN conjunct2, THEN conjunct1]
      e1 e2 unfolding model_validate_def by simp
  have m: "map_of (AssignmentCreate PersonBase_spec) ''due_date'' = Some (TDate, Required)"
    by (simp add: AssignmentCreate_eq AssignmentBase_def)
  have g: "map_of example_assignment ''due_date'' = Some (JStr ''2025-12-31'')"
    by (simp add: example_assignment_def)
  have nd: "snd (validate example_codec TDate (JStr ''2025-12-31'') example_world) = example_world"
    by (simp add: example_codec_def)
  have fe: "field_of (VModel [
       (''id'', VUuid 0x550e8400e29b41d4a716446655440000),
       (''title'', VStr ''HW1''),
       (''description'', VStr ''...''),
       (''due_date'', VDate (Date 2025 12 31)),
       (''coursework'', VModel [
          (''id'', VUuid 0x99999999999949998999999999999999),
          (''title'', VStr ''CC''),
          (''semester'', VStr ''Fall 2025''),
          (''professor'', VModel [
             (''uni'', VStr ''df123''),
             (''first_name'', VStr ''Donald''),
             (''last_name'', VStr ''Ferguson''),
             (''email'', VStr ''d@f.edu''),
             (''addresses'', VList [])]),
          (''people'', VList [])]),
       (''created_at'', VDatetime (Datetime 2025 1 15 10 20 30 0 None))]) ''due_date''
     = field_of (VModel [
       (''id'', VUuid 0x99999999999949998999999999999999),
       (''title'', VStr ''HW1''),
       (''description'', VStr ''...''),
       (''due_date'', VDate (Date 2025 12 31)),
       (''coursework'', VModel [
          (''id'', VUuid 2),
          (''title'', VStr ''CC''),
          (''semester'', VStr ''Fall 2025''),
          (''professor'', VModel [
             (''uni'', VStr ''df123''),
             (''first_name'', VStr ''Donald''),
             (''last_name'', VStr ''Ferguson''),
             (''email'', VStr ''d@f.edu''),
             (''addresses'', VList [])]),
          (''people'', VList [])]),
       (''created_at'', VDatetime (Datetime 2025 1 15 10 20 30 0 None))]) ''due_date''"
    using thm3[THEN conjunct2, THEN conjunct2, THEN conjunct2, THEN conjunct2, THEN conjunct1]
      e1 e2 m g nd by blast
  have e3: "fst (model_validate example_codec (AssignmentUpdate PersonBase_spec)
          (JObj [(''id'', JStr ''99999999-9999-4999-8999-999999999999'')]) example_world)
     = Inr (VModel [(''id'', VUuid 0x99999999999949998999999999999999), (''title'', VNone), (''description'', VNone),
       (''due_date'', VNone), (''coursework'', VNone), (''created_at'', VNone)])"
    by (simp add: model_validate_def AssignmentUpdate_def example_codec_def)
  have m3: "map_of (AssignmentUpdate PersonBase_spec) ''title''
      = Some (TOptional TStr, Default VNone)"
    by (simp add: AssignmentUpdate_def)
  note thm4 = validate_environment[where c = example_codec
      and cls = "AssignmentUpdate PersonBase_spec"
      and kvs = "[(''id'', JStr ''99999999-9999-4999-8999-999999999999'')]"
      and ?w1.0 = example_world and n = "''title''" and tn = "TOptional TStr" and y = VNone
      and ?a1.0 = "VModel [(''id'', VUuid 0x99999999999949998999999999999999), (''title'', VNone), (''description'', VNone),
       (''due_date'', VNone), (''coursework'', VNone), (''created_at'', VNone)]"]
  have sd: "field_of (VModel [(''id'', VUuid 0x99999999999949998999999999999999), (''title'', VNone), (''description'', VNone),
       (''due_date'', VNone), (''coursework'', VNone), (''created_at'', VNone)]) ''title'' = Some VNone"
    using thm4[THEN conjunct2, THEN conjunct2, THEN conjunct2, THEN conjunct2, THEN conjunct2]
      e3 m3 by simp
  have a2: "fst (validate example_codec (TModel (AssignmentCreate PersonBase_spec))
          (JObj [(''title'', JStr ''HW1'')]) (snd (uuid4 example_world)))
     = Inl [([Key ''description''], Missing), ([Key ''due_date''], Missing),
            ([Key ''coursework''], Missing)]"
    using thm1[THEN conjunct1] a by blast
  have b2: "validate example_codec (TModel (AssignmentUpdate PersonBase_spec))
       (JObj [(''id'', JStr ''99999999-9999-4999-8999-999999999999'')]) (snd (uuid4 example_world))
     = (fst (validate example_codec (TModel (AssignmentUpdate PersonBase_spec))
               (JObj [(''id'', JStr ''99999999-9999-4999-8999-999999999999'')]) example_world),
        snd (uuid4 example_world))"
    using thm2[THEN conjunct2, THEN conjunct1] b by blast
  show ?thesis
    by (intro conjI) (fact a a2 b b2 e1 e2 al m g nd fe e3 m3 sd)+
qed

text \<open>
  Claim C7 as stated fails: validating the example input twice, the second time in the
  environment the first validation leaves behind, gives two different objects.
\<close>

theorem validate_twice_counterexample:
  "fst (model_validate example_codec (AssignmentCreate PersonBase_spec)
          (JObj example_assignment) example_world)
   \<noteq> fst (model_validate example_codec (AssignmentCreate PersonBase_spec)
          (JObj example_assignment)
          (snd (model_validate example_codec (AssignmentCreate PersonBase_spec)
                  (JObj example_assignment) example_world)))"
proof -
  have dd: "date_of_str example_codec ''2025-12-31'' = Some (Date 2025 12 31)"
    and em: "email_of_str example_codec ''d@f.edu'' = Some ''d@f.edu''"
    by (simp_all add: example_codec_def)
  have w: "snd (model_validate example_codec (AssignmentCreate PersonBase_spec)
                  (JObj example_assignment) example_world)
      = example_world\<lparr>uuid_count := 2, clock_count := 1\<rparr>"
    using dd em
    by (simp add: model_validate_def AssignmentCreate_eq AssignmentBase_def CourseworkBase_def
        PersonBase_spec_def example_assignment_def example_coursework_def example_professor_def
        uuid4_def utcnow_def example_world_def)
  have "fst (utcnow example_world) \<noteq> fst (utcnow (example_world\<lparr>uuid_count := 2, clock_count := 1\<rparr>))"
    by (simp add: utcnow_def example_world_def)
  then show ?thesis
    unfolding w example_assignment_validates[OF dd em] by simp
qed

subsection \<open>An omitted \<open>id\<close> on \<open>AssignmentUpdate\<close>\<close>

text \<open>
  Claim C8. An \<open>AssignmentUpdate\<close> constructed from a patch that omits \<open>id\<close> carries as \<open>id\<close>
  the UUID that \<^verbatim>\<open>uuid4\<close> generates at that moment. In particular the empty patch yields
  a generated \<open>id\<close>, while each of its other fields is \<open>None\<close>.
\<close>

theorem assignment_update_fresh_id:
  "(map_of kvs ''id'' = None \<and> fst (model_validate c (AssignmentUpdate P) (JObj kvs) w) = Inr a
      \<longrightarrow> field_of a ''id'' = Some (VUuid (fst (uuid4 w))))
   \<and> model_validate c (AssignmentUpdate P) (JObj []) w
      = (Inr (VModel [(''id'', VUuid (fst (uuid4 w))), (''title'', VNone),
                      (''description'', VNone), (''due_date'', VNone), (''coursework'', VNone),
                      (''created_at'', VNone)]),
         snd (uuid4 w))"
proof (intro conjI impI)
  assume h: "map_of kvs ''id'' = None \<and> fst (model_validate c (AssignmentUpdate P) (JObj kvs) w) = Inr a"
  from model_validate_Inr[of c "AssignmentUpdate P" kvs w a] h
  have a: "a = VModel (snd (fst (validate_fields c (AssignmentUpdate P) kvs w)))" by simp
  have "map_of (snd (fst (validate_fields c (AssignmentUpdate P) kvs w))) ''id''
      = Some (VUuid (fst (uuid4 w)))"
    unfolding AssignmentUpdate_def
    by (subst validate_fields_Cons_result) (simp add: h call_factory_uuid4 del: call_factory.simps)
  then show "field_of a ''id'' = Some (VUuid (fst (uuid4 w)))"
    by (simp add: a)
next
  show "model_validate c (AssignmentUpdate P) (JObj []) w
      = (Inr (VModel [(''id'', VUuid (fst (uuid4 w))), (''title'', VNone),
                      (''description'', VNone), (''due_date'', VNone), (''coursework'', VNone),
                      (''created_at'', VNone)]),
         snd (uuid4 w))"
    by (simp add: model_validate_def AssignmentUpdate_def split: prod.splits)
qed

text \<open>A patch that sets only the \<open>title\<close>.\<close>

theorem assignment_update_fresh_id_witness:
  "map_of [(''title'', JStr ''HW1'')] ''id'' = None \<and>
   fst (model_validate example_codec (AssignmentUpdate PersonBase_spec)
          (JObj [(''title'', JStr ''HW1'')]) example_world)
     = Inr (VModel [(''id'', VUuid 0x550e8400e29b41d4a716446655440000), (''title'', VStr ''HW1''),
                    (''description'', VNone), (''due_date'', VNone), (''coursework'', VNone),
                    (''created_at'', VNone)]) \<and>
   field_of (VModel [(''id'', VUuid 0x550e8400e29b41d4a716446655440000), (''title'', VStr ''HW1''),
                    (''description'', VNone), (''due_date'', VNone), (''coursework'', VNone),
                    (''created_at'', VNone)]) ''id''
     = Some (VUuid (fst (uuid4 example_world)))"
proof -
  have ev: "fst (model_validate example_codec (AssignmentUpdate PersonBase_spec)
          (JObj [(''title'', JStr ''HW1'')]) example_world)
     = Inr (VModel [(''id'', VUuid 0x550e8400e29b41d4a716446655440000), (''title'', VStr ''HW1''),
                    (''description'', VNone), (''due_date'', VNone), (''coursework'', VNone),
                    (''created_at'', VNone)])"
    by (simp add: model_validate_def AssignmentUpdate_def uuid4_def example_world_def)
  show ?thesis
    using ev assignment_update_fresh_id[of "[(''title'', JStr ''HW1'')]" example_codec
        PersonBase_spec example_world
        "VModel [(''id'', VUuid 0x550e8400e29b41d4a716446655440000), (''title'', VStr ''HW1''),
                    (''description'', VNone), (''due_date'', VNone), (''coursework'', VNone),
                    (''created_at'', VNone)]"]
    by simp
qed

subsection \<open>A null \<open>created_at\<close> on \<open>CourseworkUpdate\<close>\<close>

text \<open>
  Claim C9. A patch for \<open>CourseworkUpdate\<close> that supplies \<open>null\<close> for \<open>created_at\<close> fails with
  a type error at \<open>created_at\<close>, whereas a patch that supplies \<open>null\<close> for each of \<open>title\<close>,
  \<open>semester\<close>, \<open>professor\<close> and \<open>people\<close> and omits \<open>created_at\<close> validates, with \<open>created_at\<close>
  set to the current time.
\<close>

theorem coursework_update_created_at_null:
  "(map_of kvs ''created_at'' = Some JNull \<longrightarrow>
      (\<exists>es. fst (model_validate c (CourseworkUpdate P) (JObj kvs) w) = Inl es
         \<and> ([Key ''created_at''], DatetimeType) \<in> set es))
   \<and> model_validate c (CourseworkUpdate P)
        (JObj [(''title'', JNull), (''semester'', JNull), (''professor'', JNull),
               (''people'', JNull)]) w
      = (Inr (VModel [(''title'', VNone), (''semester'', VNone), (''professor'', VNone),
                      (''people'', VNone), (''created_at'', VDatetime (fst (utcnow w)))]),
         snd (utcnow w))"
proof (intro conjI impI)
  assume null: "map_of kvs ''created_at'' = Some JNull"
  have f: "map_of (CourseworkUpdate P) ''created_at'' = Some (TDatetime, DefaultFactory Factory_utcnow)"
    by (simp add: CourseworkUpdate_def)
  have e: "([], DatetimeType) \<in> set (errors_of (fst (validate c TDatetime JNull w)))"
    by simp
  from field_error_propagates[OF f null e]
  show "\<exists>es. fst (model_validate c (CourseworkUpdate P) (JObj kvs) w) = Inl es
         \<and> ([Key ''created_at''], DatetimeType) \<in> set es"
    by (rule model_validate_fails)
next
  show "model_validate c (CourseworkUpdate P)
        (JObj [(''title'', JNull), (''semester'', JNull), (''professor'', JNull),
               (''people'', JNull)]) w
      = (Inr (VModel [(''title'', VNone), (''semester'', VNone), (''professor'', VNone),
                      (''people'', VNone), (''created_at'', VDatetime (fst (utcnow w)))]),
         snd (utcnow w))"
    by (simp add: model_validate_def CourseworkUpdate_def split: prod.splits)
qed

text \<open>A patch with a null \<open>title\<close> and a null \<open>created_at\<close>.\<close>

theorem coursework_update_created_at_null_witness:
  "map_of [(''title'', JNull), (''created_at'', JNull)] ''created_at'' = Some JNull \<and>
   (\<exists>es. fst (model_validate example_codec (CourseworkUpdate PersonBase_spec)
              (JObj [(''title'', JNull), (''created_at'', JNull)]) example_world) = Inl es
         \<and> ([Key ''created_at''], DatetimeType) \<in> set es)"
  using coursework_update_created_at_null[of "[(''title'', JNull), (''created_at'', JNull)]"
      example_codec PersonBase_spec example_world]
  by simp

subsection \<open>An explicit null in a patch\<close>




end
